theory Spec2Isabelle
  imports Main "HOL-Library.Sublist" "HOL-Library.List_Lexorder" "HOL-Library.Char_ord"
    "HOL-Library.AList"
begin

section \<open>Legacy configuration upgrade of distgo (package legacy)\<close>

text \<open>
  Shallow embedding of \<^verbatim>\<open>distgo/config/internal/legacy/legacy.go\<close>.
  Go strings are byte sequences and are modelled as \<^typ>\<open>string\<close>; a Go pointer that may
  be nil is an \<^typ>\<open>'a option\<close>; a function returning \<^verbatim>\<open>(T, error)\<close> returns a sum with
  the error on the left.
\<close>

subsection \<open>String helpers of the Go standard library\<close>

text \<open>\<^verbatim>\<open>strings.Contains(s, substr)\<close>: some suffix of \<open>s\<close> starts with \<open>substr\<close>.\<close>

fun Contains :: "string \<Rightarrow> string \<Rightarrow> bool" where
  "Contains [] sub = (sub = [])"
| "Contains (c # cs) sub = (prefix sub (c # cs) \<or> Contains cs sub)"

text \<open>\<^verbatim>\<open>strings.HasSuffix(s, suffix)\<close>.\<close>

definition HasSuffix :: "string \<Rightarrow> string \<Rightarrow> bool" where
  "HasSuffix s suf = suffix suf s"

text \<open>
  \<^verbatim>\<open>utf8.DecodeRuneInString\<close>, as far as \<^verbatim>\<open>strings.Replace\<close> uses it: the number of bytes
  that follow the first byte in the first rune of the text. The first byte fixes the size
  of the encoding (one byte for ASCII and for bytes that start no encoding) and the range
  of the second byte; the later bytes are continuation bytes. An encoding that is cut
  short or has a byte out of range is one byte wide.
\<close>

definition runeExtra :: "string \<Rightarrow> nat" where
  "runeExtra s =
     (case s of
        [] \<Rightarrow> 0
      | c # cs \<Rightarrow>
          (let s0 = (of_char c :: nat);
               sz = (if 0xC2 \<le> s0 \<and> s0 \<le> 0xDF then 2
                     else if 0xE0 \<le> s0 \<and> s0 \<le> 0xEF then 3
                     else if 0xF0 \<le> s0 \<and> s0 \<le> 0xF4 then 4
                     else (1::nat));
               lo = (if s0 = 0xE0 then 0xA0 else if s0 = 0xF0 then 0x90 else (0x80::nat));
               hi = (if s0 = 0xED then 0x9F else if s0 = 0xF4 then 0x8F else (0xBF::nat))
           in
           if sz = 1 \<or> length (c # cs) < sz then 0
           else
             (let s1 = (of_char (cs ! 0) :: nat) in
              if s1 < lo \<or> hi < s1 then 0
              else if sz \<le> 2 then 1
              else
                (let s2 = (of_char (cs ! 1) :: nat) in
                 if s2 < 0x80 \<or> 0xBF < s2 then 0
                 else if sz \<le> 3 then 2
                 else
                   (let s3 = (of_char (cs ! 2) :: nat) in
                    if s3 < 0x80 \<or> 0xBF < s3 then 0 else 3)))))"

text \<open>
  \<^verbatim>\<open>strings.Replace(s, old, new, -1)\<close>: the non-overlapping occurrences of \<open>old\<close> are
  replaced from left to right. For an empty \<open>old\<close> Go inserts \<open>new\<close> before the first
  rune and after every rune of the text.
\<close>

function Replace :: "string \<Rightarrow> string \<Rightarrow> string \<Rightarrow> string" where
  "Replace [] old new = (if old = [] then new else [])"
| "Replace (c # cs) old new =
     (if old = [] then
        new @ c # take (runeExtra (c # cs)) cs @ Replace (drop (runeExtra (c # cs)) cs) old new
      else if prefix old (c # cs) then new @ Replace (drop (length old) (c # cs)) old new
      else c # Replace cs old new)"
  by pat_completeness auto
termination
  by (relation "measure (\<lambda>(s, old, new). length s)") auto

subsection \<open>Script synthesis\<close>

definition newline :: string where
  "newline = [CHR 0x0A]"

definition shebang :: string where
  "shebang = ''#!/bin/bash'' @ newline"

text \<open>
  \<^verbatim>\<open>appendToScript(script, append)\<close>: an empty script first receives the line
  \<^verbatim>\<open>#!/bin/bash\<close>; the fragment is appended; a newline is added unless the result
  already ends with one.
\<close>

definition appendToScript :: "string \<Rightarrow> string \<Rightarrow> string" where
  "appendToScript script app =
     (let script1 = (if script = [] then script @ shebang else script);
          script2 = script1 @ app
      in if \<not> HasSuffix script2 newline then script2 @ newline else script2)"

text \<open>\<^verbatim>\<open>translateVar(in, oldVar, newVar)\<close>: two successive replacements.\<close>

definition translateVar :: "string \<Rightarrow> string \<Rightarrow> string \<Rightarrow> string" where
  "translateVar inp oldVar newVar =
     (let out1 = Replace inp (''$'' @ oldVar) (''$'' @ newVar)
      in Replace out1 (''${'' @ oldVar @ ''}'') (''${'' @ newVar @ ''}''))"

definition isSnapshotScript :: string where
  \<open>isSnapshotScript =
     ''### START: auto-generated back-compat code for "IS_SNAPSHOT" variable ###'' @ newline @
     ''IS_SNAPSHOT=0'' @ newline @
     ''if [[ $VERSION =~ .+g[-+.]?[a-fA-F0-9]{3,}$ ]]; then IS_SNAPSHOT=1; fi'' @ newline @
     ''### END: auto-generated back-compat code for "IS_SNAPSHOT" variable ###'' @ newline\<close>

definition translateEnvVars :: "string \<Rightarrow> string" where
  "translateEnvVars inp =
     (let out = (if Contains inp ''IS_SNAPSHOT'' then isSnapshotScript @ inp else inp)
      in translateVar out ''DIST_DIR'' ''DIST_WORK_DIR'')"

text \<open>
  The renaming as the specification words it: scanning from the left, an occurrence of
  \<^verbatim>\<open>$DIST_DIR\<close> becomes \<^verbatim>\<open>$DIST_WORK_DIR\<close>, an occurrence of \<^verbatim>\<open>${DIST_DIR}\<close> becomes
  \<^verbatim>\<open>${DIST_WORK_DIR}\<close>, and every other character is copied unchanged.
\<close>

function renameDistDirSpec :: "string \<Rightarrow> string" where
  "renameDistDirSpec [] = []"
| "renameDistDirSpec (c # cs) =
     (if prefix ''$DIST_DIR'' (c # cs)
        then ''$DIST_WORK_DIR'' @ renameDistDirSpec (drop 9 (c # cs))
      else if prefix ''${DIST_DIR}'' (c # cs)
        then ''${DIST_WORK_DIR}'' @ renameDistDirSpec (drop 11 (c # cs))
      else c # renameDistDirSpec cs)"
  by pat_completeness auto
termination
  by (relation "measure length") auto

subsection \<open>Decoding the legacy \<^verbatim>\<open>dist\<close> key\<close>

datatype decode_error =
    AtLeastOneDist
  | YamlError string

text \<open>
  \<^verbatim>\<open>RawDistConfigs.UnmarshalYAML\<close>. The callback \<^verbatim>\<open>unmarshal\<close> decodes the node into
  the target it is given; its two uses are the two arguments: \<open>asList\<close> is the outcome of
  decoding into a list of dist configurations, \<open>asSingle\<close> the outcome of decoding into
  one dist configuration. The result is the new value of the receiver.
\<close>

definition UnmarshalYAML_RawDistConfigs ::
  "(string + 'd list) \<Rightarrow> (string + 'd) \<Rightarrow> decode_error + 'd list" where
  "UnmarshalYAML_RawDistConfigs asList asSingle =
     (case asList of
        Inr multiple \<Rightarrow> (if length multiple = 0 then Inl AtLeastOneDist else Inr multiple)
      | Inl _ \<Rightarrow>
          (case asSingle of
             Inl err \<Rightarrow> Inl (YamlError err)
           | Inr single \<Rightarrow> Inr [single]))"

subsection \<open>The legacy schema\<close>

text \<open>
  Values of Go's \<^verbatim>\<open>interface{}\<close> that the engine never inspects (manifest extensions,
  payloads of an unknown type) and \<^verbatim>\<open>yaml.MapSlice\<close> are trees of YAML nodes.
\<close>

datatype yaml =
    YScalar string
  | YSeq "yaml list"
  | YMap "(yaml \<times> yaml) list"

type_synonym MapSlice = "(yaml \<times> yaml) list"

text \<open>\<^verbatim>\<open>osarch.OSArch\<close> and \<^verbatim>\<open>matcher.NamesPathsCfg\<close> of the imported packages.\<close>

record OSArch =
  OSArch_OS :: string
  OSArch_Arch :: string

record NamesPathsCfg =
  NamesPathsCfg_Names :: "string list"
  NamesPathsCfg_Paths :: "string list"

text \<open>
  A Go \<^verbatim>\<open>map[string]T\<close> is an association list read with \<^const>\<open>map_of\<close>; a slice is a
  list (the code only asks for its length, so nil and empty coincide). The embedded
  \<^verbatim>\<open>versionedconfig.ConfigWithLegacy\<close> is the boolean field \<open>Legacy\<close>.
\<close>

record Build =
  Build_Skip :: bool
  Build_Script :: string
  Build_MainPkg :: string
  Build_OutputDir :: string
  Build_BuildArgsScript :: string
  Build_VersionVar :: string
  Build_Environment :: "(string \<times> string) list"
  Build_OSArchs :: "OSArch list"

record Run =
  Run_Args :: "string list"

record Almanac =
  Almanac_Legacy :: bool
  Almanac_Metadata :: "(string \<times> string) list"
  Almanac_Tags :: "string list"

record Publish =
  Publish_GroupID :: string
  Publish_Almanac :: Almanac

record BinDist =
  BinDist_Legacy :: bool
  BinDist_OmitInitSh :: "bool option"
  BinDist_InitShTemplateFile :: string

record ManualDist =
  ManualDist_Legacy :: bool
  ManualDist_Extension :: string

record OSArchBinDist =
  OSArchBinDist_Legacy :: bool
  OSArchBinDist_OSArchs :: "OSArch list"

record SLSDist =
  SLSDist_Legacy :: bool
  SLSDist_InitShTemplateFile :: string
  SLSDist_ManifestTemplateFile :: string
  SLSDist_ServiceArgs :: string
  SLSDist_ProductType :: string
  SLSDist_ManifestExtensions :: "(string \<times> yaml) list"
  SLSDist_Reloadable :: bool
  SLSDist_YMLValidationExclude :: NamesPathsCfg

record RPMDist =
  RPMDist_Legacy :: bool
  RPMDist_Release :: string
  RPMDist_ConfigFiles :: "string list"
  RPMDist_BeforeInstallScript :: string
  RPMDist_AfterInstallScript :: string
  RPMDist_AfterRemoveScript :: string

text \<open>
  The field \<^verbatim>\<open>Info interface{}\<close> of \<^verbatim>\<open>DistInfo\<close>: the dynamic type of the value is the
  constructor. \<^verbatim>\<open>DistInfo.UnmarshalYAML\<close> stores the structure that belongs to the type
  name; a value built otherwise may disagree with the name, and the type assertions of
  the engine then panic.
\<close>

datatype DistInfoValue =
    InfoNil
  | InfoSLS SLSDist
  | InfoBin BinDist
  | InfoManual ManualDist
  | InfoOSArchBin OSArchBinDist
  | InfoRPM RPMDist
  | InfoOther yaml

record DistInfo =
  DistInfo_Type :: string
  DistInfo_Info :: DistInfoValue

record Dist =
  Dist_OutputDir :: string
  Dist_InputDir :: string
  Dist_InputProducts :: "string list"
  Dist_Script :: string
  Dist_DistType :: DistInfo
  Dist_Publish :: Publish

record DockerDep =
  DockerDep_Product :: string
  DockerDep_Type :: string
  DockerDep_TargetFile :: string

record SLSDockerImageInfo =
  SLSDockerImageInfo_Legacy :: bool
  SLSDockerImageInfo_GroupID :: string
  SLSDockerImageInfo_ProuductType :: string
  SLSDockerImageInfo_Extensions :: "(string \<times> yaml) list"

datatype DockerImageInfoData =
    DataNil
  | DataSLS SLSDockerImageInfo
  | DataOther yaml

record DockerImageInfo =
  DockerImageInfo_Type :: string
  DockerImageInfo_Data :: DockerImageInfoData

record DockerImage =
  DockerImage_Repository :: string
  DockerImage_Tag :: string
  DockerImage_ContextDir :: string
  DockerImage_Deps :: "DockerDep list"
  DockerImage_Info :: DockerImageInfo
  DockerImage_BuildArgsScript :: string

record Product =
  Product_Build :: Build
  Product_Run :: Run
  Product_Dist :: "Dist list"
  Product_DockerImages :: "DockerImage list"
  Product_DefaultPublish :: Publish

record Project =
  Project_Legacy :: bool
  Project_Products :: "(string \<times> Product) list"
  Project_BuildOutputDir :: string
  Project_DistOutputDir :: string
  Project_DistScriptInclude :: string
  Project_GroupID :: string
  Project_Exclude :: NamesPathsCfg

text \<open>The legacy dist type names (\<^verbatim>\<open>DistInfoType\<close>).\<close>

definition SLSDistType :: string where "SLSDistType = ''sls''"
definition BinDistType :: string where "BinDistType = ''bin''"
definition RPMDistType :: string where "RPMDistType = ''rpm''"
definition OSArchBinDistType :: string where "OSArchBinDistType = ''os-arch-bin''"
definition ManualDistType :: string where "ManualDistType = ''manual''"

text \<open>Go's zero values of the legacy structures.\<close>

definition zeroAlmanac :: Almanac where
  "zeroAlmanac = \<lparr>Almanac_Legacy = False, Almanac_Metadata = [], Almanac_Tags = []\<rparr>"

definition zeroPublish :: Publish where
  "zeroPublish = \<lparr>Publish_GroupID = [], Publish_Almanac = zeroAlmanac\<rparr>"

definition zeroBuild :: Build where
  "zeroBuild = \<lparr>Build_Skip = False, Build_Script = [], Build_MainPkg = [],
     Build_OutputDir = [], Build_BuildArgsScript = [], Build_VersionVar = [],
     Build_Environment = [], Build_OSArchs = []\<rparr>"

definition zeroDist :: Dist where
  "zeroDist = \<lparr>Dist_OutputDir = [], Dist_InputDir = [], Dist_InputProducts = [],
     Dist_Script = [], Dist_DistType = \<lparr>DistInfo_Type = [], DistInfo_Info = InfoNil\<rparr>,
     Dist_Publish = zeroPublish\<rparr>"

definition zeroProduct :: Product where
  "zeroProduct = \<lparr>Product_Build = zeroBuild, Product_Run = \<lparr>Run_Args = []\<rparr>,
     Product_Dist = [], Product_DockerImages = [], Product_DefaultPublish = zeroPublish\<rparr>"

definition zeroProject :: Project where
  "zeroProject = \<lparr>Project_Legacy = False, Project_Products = [],
     Project_BuildOutputDir = [], Project_DistOutputDir = [], Project_DistScriptInclude = [],
     Project_GroupID = [],
     Project_Exclude = \<lparr>NamesPathsCfg_Names = [], NamesPathsCfg_Paths = []\<rparr>\<rparr>"

subsection \<open>The current schema (package v0)\<close>

text \<open>
  Modelled from the spec: the package \<^verbatim>\<open>distgo/config/internal/v0\<close> is not among the
  sources. Its structures are the "Current Schema Model" of the specification; each
  record holds the fields that \<^verbatim>\<open>legacy.go\<close> assigns, every optional field being a
  pointer. The maps keyed by identifier (products, disters, publishers, docker builders)
  are association lists with distinct keys, written by \<^const>\<open>AList.update\<close>.
\<close>

record BuildConfig =
  BuildConfig_OutputDir :: "string option"
  BuildConfig_MainPkg :: "string option"
  BuildConfig_BuildArgsScript :: "string option"
  BuildConfig_VersionVar :: "string option"
  BuildConfig_Environment :: "(string \<times> string) list option"
  BuildConfig_OSArchs :: "OSArch list option"

record RunConfig =
  RunConfig_Args :: "string list option"

record DisterConfig =
  DisterConfig_Type :: "string option"
  DisterConfig_Config :: "MapSlice option"
  DisterConfig_Script :: "string option"

record DistConfig =
  DistConfig_OutputDir :: "string option"
  DistConfig_Disters :: "(string \<times> DisterConfig) list option"

record PublisherConfig =
  PublisherConfig_Config :: "MapSlice option"

record PublishConfig =
  PublishConfig_GroupID :: "string option"
  PublishConfig_PublishInfo :: "(string \<times> PublisherConfig) list option"

record DockerBuilderConfig =
  DockerBuilderConfig_Type :: "string option"
  DockerBuilderConfig_Config :: "MapSlice option"
  DockerBuilderConfig_TagTemplates :: "string list option"
  DockerBuilderConfig_ContextDir :: "string option"
  DockerBuilderConfig_InputDists :: "string list option"

record DockerConfig =
  DockerConfig_DockerBuildersConfig :: "(string \<times> DockerBuilderConfig) list option"

record ProductConfig =
  ProductConfig_Build :: "BuildConfig option"
  ProductConfig_Run :: "RunConfig option"
  ProductConfig_Dist :: "DistConfig option"
  ProductConfig_Publish :: "PublishConfig option"
  ProductConfig_Docker :: "DockerConfig option"
  ProductConfig_Dependencies :: "string list option"

record ProjectConfig =
  ProjectConfig_Products :: "(string \<times> ProductConfig) list"
  ProjectConfig_ProductDefaults :: ProductConfig
  ProjectConfig_ScriptIncludes :: string
  ProjectConfig_Exclude :: NamesPathsCfg

definition zeroBuildConfig :: BuildConfig where
  "zeroBuildConfig = \<lparr>BuildConfig_OutputDir = None, BuildConfig_MainPkg = None,
     BuildConfig_BuildArgsScript = None, BuildConfig_VersionVar = None,
     BuildConfig_Environment = None, BuildConfig_OSArchs = None\<rparr>"

definition zeroDisterConfig :: DisterConfig where
  "zeroDisterConfig = \<lparr>DisterConfig_Type = None, DisterConfig_Config = None,
     DisterConfig_Script = None\<rparr>"

definition zeroPublishConfig :: PublishConfig where
  "zeroPublishConfig = \<lparr>PublishConfig_GroupID = None, PublishConfig_PublishInfo = None\<rparr>"

definition zeroProductConfig :: ProductConfig where
  "zeroProductConfig = \<lparr>ProductConfig_Build = None, ProductConfig_Run = None,
     ProductConfig_Dist = None, ProductConfig_Publish = None, ProductConfig_Docker = None,
     ProductConfig_Dependencies = None\<rparr>"

subsection \<open>Errors and external collaborators\<close>

datatype panic =
    NilPointerDereference
  | TypeAssertionFailed

text \<open>
  One constructor for each error the engine creates or wraps. The errors about a product
  carry the product name of the message: the only argument, or the first of two (the
  second is the offending type name), or the second of three (a description of what was
  delegated, the product name, the message of the wrapped error). A run-time panic of the
  Go program is the value \<open>Panic\<close>.
\<close>

datatype upgrade_error =
    UnmarshalLegacyFailed string
  | BuildScriptUnsupported string
  | MultipleDists string
  | CustomInitShTemplate string
  | UnsupportedDistType string string
  | UnsupportedDockerDepType string string
  | MarshalFailed string string string
  | NoUpgraderFound string string string
  | UpgradeFailed string string string
  | UnmarshalUpgradedFailed string string string
  | MarshalConfigFailed string
  | Panic panic

text \<open>The structures handed to \<^verbatim>\<open>yaml.Marshal\<close> before delegation.\<close>

datatype marshalable =
    MSLSDist SLSDist
  | MOSArchBinDist OSArchBinDist
  | MManualDist ManualDist
  | MRPMDist RPMDist
  | MAlmanac Almanac
  | MSLSDockerImageInfo SLSDockerImageInfo

text \<open>
  What the engine receives from outside: the YAML library, the three plugin factories
  (\<^verbatim>\<open>ConfigUpgrader(typeName)\<close> yields an upgrader or an error; the upgrader maps bytes
  to bytes or an error), and the type names exported by the dister and docker builder
  packages. Errors of the collaborators are their messages.
\<close>

record env =
  yamlMarshal :: "marshalable \<Rightarrow> string + string"
  yamlUnmarshalMapSlice :: "string \<Rightarrow> string + MapSlice"
  yamlUnmarshalStrictProject :: "string \<Rightarrow> string + Project"
  yamlMarshalProjectConfig :: "ProjectConfig \<Rightarrow> string + string"
  disterFactory :: "string \<Rightarrow> string + (string \<Rightarrow> string + string)"
  dockerBuilderFactory :: "string \<Rightarrow> string + (string \<Rightarrow> string + string)"
  publisherFactory :: "string \<Rightarrow> string + (string \<Rightarrow> string + string)"
  bin_TypeName :: string
  osarchbin_TypeName :: string
  manual_TypeName :: string
  defaultdockerbuilder_TypeName :: string

subsection \<open>The upgrade engine\<close>

text \<open>\<^verbatim>\<open>inputDirScriptContent(inputDir)\<close>; \<^verbatim>\<open>%s\<close> inserts the directory as it is.\<close>

definition inputDirScriptContent :: "string \<Rightarrow> string" where
  \<open>inputDirScriptContent inputDir =
     ''### START: auto-generated back-compat code for "input-dir" behavior ###'' @ newline @
     (''cp -r "$PROJECT_DIR"/'' @ inputDir @ ''/. "$DIST_WORK_DIR"'' @ newline @
      ''find "$DIST_WORK_DIR" -type f -name .gitkeep -exec rm '' @ [CHR 0x27] @ ''{}'' @
        [CHR 0x27] @ '' '' @ [CHR 0x5C] @ '';'') @ newline @
     ''### END: auto-generated back-compat code for "input-dir" behavior ###''\<close>

text \<open>\<^verbatim>\<open>binDistInitShScript()\<close>.\<close>

definition binDistInitShScript :: string where
  \<open>binDistInitShScript =
     ''### START: auto-generated back-compat code for "omit-init-sh: false" behavior for bin dist ###'' @ newline @
     ''read -d '' @ [CHR 0x27, CHR 0x27] @ '' GODELUPGRADED_scriptContent <<"EOF"'' @ newline @
     ''#!/bin/bash'' @ newline @
     ''set -euo pipefail'' @ newline @
     ''BIN_DIR="$(cd "$(dirname "$0")" && pwd)"'' @ newline @
     ''# determine OS'' @ newline @
     ''OS=""'' @ newline @
     ''case "$(uname)" in'' @ newline @
     ''  Darwin*)'' @ newline @
     ''    OS=darwin'' @ newline @
     ''    ;;'' @ newline @
     ''  Linux*)'' @ newline @
     ''    OS=linux'' @ newline @
     ''    ;;'' @ newline @
     ''  *)'' @ newline @
     ''    echo "Unsupported operating system: $(uname)"'' @ newline @
     ''    exit 1'' @ newline @
     ''    ;;'' @ newline @
     ''esac'' @ newline @
     ''# determine executable location based on OS'' @ newline @
     ''CMD=$BIN_DIR/$OS-amd64/{{.ProductName}}'' @ newline @
     ''# verify that executable exists'' @ newline @
     ''if [ ! -e "$CMD" ]; then'' @ newline @
     ''    echo "Executable $CMD does not exist"'' @ newline @
     ''    exit 1'' @ newline @
     ''fi'' @ newline @
     ''# invoke appropriate executable'' @ newline @
     ''$CMD "$@"'' @ newline @
     ''EOF'' @ newline @
     ''GODELUPGRADED_templated=${GODELUPGRADED_scriptContent//'' @ [CHR 0x5C] @ ''{'' @ [CHR 0x5C] @ ''{.ProductName'' @ [CHR 0x5C] @ ''}'' @ [CHR 0x5C] @ ''}/$PRODUCT}'' @ newline @
     ''echo "$GODELUPGRADED_templated" > "$DIST_WORK_DIR"/bin/"$PRODUCT".sh'' @ newline @
     ''chmod 755 "$DIST_WORK_DIR"/bin/"$PRODUCT".sh'' @ newline @
     ''### END: auto-generated back-compat code for "omit-init-sh: false" behavior for bin dist ###''\<close>

text \<open>\<^verbatim>\<open>addDepIfNotPresent(deps, productID)\<close>.\<close>

definition addDepIfNotPresent :: "string list \<Rightarrow> string \<Rightarrow> string list" where
  "addDepIfNotPresent deps productID =
     (if productID \<in> set deps then deps else deps @ [productID])"

text \<open>
  The idiom \<^verbatim>\<open>if cfg.Script == nil { cfg.Script = stringPtr("") };
  cfg.Script = stringPtr(appendToScript(*cfg.Script, fragment))\<close>.
\<close>

definition appendToScriptPtr :: "string option \<Rightarrow> string \<Rightarrow> string option" where
  "appendToScriptPtr script fragment =
     Some (appendToScript (case script of None \<Rightarrow> [] | Some s \<Rightarrow> s) fragment)"

text \<open>
  The delegation to a plugin's upgrader, written out three times in the source (dister,
  publisher, docker builder): look the upgrader up, run it on the marshalled legacy
  payload, and decode the upgraded bytes as a \<^verbatim>\<open>yaml.MapSlice\<close>. \<open>category\<close> tells
  the three uses apart in the wrapped errors.
\<close>

definition delegateUpgrade ::
  "env \<Rightarrow> (string \<Rightarrow> string + (string \<Rightarrow> string + string)) \<Rightarrow> string \<Rightarrow> string \<Rightarrow> string \<Rightarrow> string
     \<Rightarrow> upgrade_error + MapSlice" where
  "delegateUpgrade e factory category typeName k legacyBytes =
     (case factory typeName of
        Inl err \<Rightarrow> Inl (NoUpgraderFound category k err)
      | Inr upgrader \<Rightarrow>
          (case upgrader legacyBytes of
             Inl err \<Rightarrow> Inl (UpgradeFailed category k err)
           | Inr upgradedBytes \<Rightarrow>
               (case yamlUnmarshalMapSlice e upgradedBytes of
                  Inl err \<Rightarrow> Inl (UnmarshalUpgradedFailed category k err)
                | Inr cfgMapSlice \<Rightarrow> Inr cfgMapSlice)))"

text \<open>The build section of one product (the block guarded by \<^verbatim>\<open>!legacyProduct.Build.Skip\<close>).\<close>

definition upgradeBuild :: "string \<Rightarrow> Build \<Rightarrow> upgrade_error + BuildConfig option" where
  "upgradeBuild k b =
     (if \<not> Build_Skip b then
        (if Build_Script b \<noteq> [] then Inl (BuildScriptUnsupported k)
         else Inr (Some
           \<lparr>BuildConfig_OutputDir =
              (if Build_OutputDir b \<noteq> [] then Some (Build_OutputDir b) else None),
            BuildConfig_MainPkg =
              (if Build_MainPkg b \<noteq> [] then Some (Build_MainPkg b) else None),
            BuildConfig_BuildArgsScript =
              (if Build_BuildArgsScript b \<noteq> [] then Some (Build_BuildArgsScript b) else None),
            BuildConfig_VersionVar =
              (if Build_VersionVar b \<noteq> [] then Some (Build_VersionVar b) else None),
            BuildConfig_Environment =
              (if length (Build_Environment b) > 0 then Some (Build_Environment b) else None),
            BuildConfig_OSArchs =
              (if length (Build_OSArchs b) > 0 then Some (Build_OSArchs b) else None)\<rparr>))
      else Inr None)"

definition upgradeRun :: "Run \<Rightarrow> RunConfig option" where
  "upgradeRun r =
     (if length (Run_Args r) > 0 then Some \<lparr>RunConfig_Args = Some (Run_Args r)\<rparr> else None)"

text \<open>
  The default dist. The condition reads \<^verbatim>\<open>product.Build.OSArchs\<close> of the upgraded
  product; \<^verbatim>\<open>product.Build\<close> is nil when the build was skipped, and reading a field
  through it panics. Go evaluates \<^verbatim>\<open>&&\<close> from the left, so the read only happens when
  the dist list is empty.
\<close>

definition defaultDist :: "BuildConfig option \<Rightarrow> Dist list \<Rightarrow> upgrade_error + Dist list" where
  "defaultDist build dists =
     (if length dists = 0 then
        (case build of
           None \<Rightarrow> Inl (Panic NilPointerDereference)
         | Some bc \<Rightarrow>
             (case BuildConfig_OSArchs bc of
                None \<Rightarrow> Inr dists
              | Some osArchs \<Rightarrow>
                  if length osArchs > 0 then
                    Inr [zeroDist\<lparr>Dist_DistType :=
                           \<lparr>DistInfo_Type = OSArchBinDistType,
                            DistInfo_Info = InfoOSArchBin
                              \<lparr>OSArchBinDist_Legacy = True, OSArchBinDist_OSArchs = osArchs\<rparr>\<rparr>\<rparr>]
                  else Inr dists))
      else Inr dists)"

text \<open>
  The switch on the legacy dist type: the dister configuration with its type (and, for
  \<^verbatim>\<open>bin\<close>, the launcher script), and the bytes of the marshalled legacy payload (empty
  for \<^verbatim>\<open>bin\<close>).
\<close>

definition upgradeDistType ::
  "env \<Rightarrow> string \<Rightarrow> Dist \<Rightarrow> upgrade_error + (DisterConfig \<times> string)" where
  "upgradeDistType e k legacyDist =
     (let distType = DistInfo_Type (Dist_DistType legacyDist);
          info = DistInfo_Info (Dist_DistType legacyDist)
      in
      if distType = SLSDistType then
        (case info of
           InfoSLS slsDist \<Rightarrow>
             (case yamlMarshal e (MSLSDist (slsDist\<lparr>SLSDist_Legacy := True\<rparr>)) of
                Inl err \<Rightarrow> Inl (MarshalFailed ''SLS dist'' k err)
              | Inr cfgBytes \<Rightarrow>
                  Inr (zeroDisterConfig\<lparr>DisterConfig_Type := Some ''sls''\<rparr>, cfgBytes))
         | _ \<Rightarrow> Inl (Panic TypeAssertionFailed))
      else if distType = BinDistType then
        (case info of
           InfoBin binDist \<Rightarrow>
             (let cfg = zeroDisterConfig\<lparr>DisterConfig_Type := Some (bin_TypeName e)\<rparr> in
              if BinDist_OmitInitSh binDist = Some False then
                (if BinDist_InitShTemplateFile binDist \<noteq> [] then Inl (CustomInitShTemplate k)
                 else Inr (cfg\<lparr>DisterConfig_Script :=
                                  appendToScriptPtr (DisterConfig_Script cfg) binDistInitShScript\<rparr>,
                           []))
              else Inr (cfg, []))
         | _ \<Rightarrow> Inl (Panic TypeAssertionFailed))
      else if distType = OSArchBinDistType then
        (case info of
           InfoOSArchBin osArchBinDist \<Rightarrow>
             (case yamlMarshal e
                     (MOSArchBinDist (osArchBinDist\<lparr>OSArchBinDist_Legacy := True\<rparr>)) of
                Inl err \<Rightarrow> Inl (MarshalFailed ''os-arch-bin dist'' k err)
              | Inr cfgBytes \<Rightarrow>
                  Inr (zeroDisterConfig\<lparr>DisterConfig_Type := Some (osarchbin_TypeName e)\<rparr>,
                       cfgBytes))
         | _ \<Rightarrow> Inl (Panic TypeAssertionFailed))
      else if distType = ManualDistType then
        (case info of
           InfoManual manualDist \<Rightarrow>
             (case yamlMarshal e (MManualDist (manualDist\<lparr>ManualDist_Legacy := True\<rparr>)) of
                Inl err \<Rightarrow> Inl (MarshalFailed ''manual dist'' k err)
              | Inr cfgBytes \<Rightarrow>
                  Inr (zeroDisterConfig\<lparr>DisterConfig_Type := Some (manual_TypeName e)\<rparr>,
                       cfgBytes))
         | _ \<Rightarrow> Inl (Panic TypeAssertionFailed))
      else if distType = RPMDistType then
        (case info of
           InfoRPM rpmDist \<Rightarrow>
             (case yamlMarshal e (MRPMDist (rpmDist\<lparr>RPMDist_Legacy := True\<rparr>)) of
                Inl err \<Rightarrow> Inl (MarshalFailed ''rpm dist'' k err)
              | Inr cfgBytes \<Rightarrow>
                  Inr (zeroDisterConfig\<lparr>DisterConfig_Type := Some ''rpm''\<rparr>, cfgBytes))
         | _ \<Rightarrow> Inl (Panic TypeAssertionFailed))
      else Inl (UnsupportedDistType k distType))"

text \<open>The publish configuration of the dist entry.\<close>

definition upgradePublish :: "env \<Rightarrow> string \<Rightarrow> Publish \<Rightarrow> upgrade_error + PublishConfig option" where
  "upgradePublish e k pub =
     (let publishCfg0 =
            (if Publish_GroupID pub \<noteq> []
             then Some (zeroPublishConfig\<lparr>PublishConfig_GroupID := Some (Publish_GroupID pub)\<rparr>)
             else None)
      in
      if length (Almanac_Tags (Publish_Almanac pub)) > 0
           \<or> length (Almanac_Metadata (Publish_Almanac pub)) > 0 then
        (let publishCfg = (case publishCfg0 of None \<Rightarrow> zeroPublishConfig | Some c \<Rightarrow> c);
             publishInfo = (case PublishConfig_PublishInfo publishCfg of None \<Rightarrow> [] | Some m \<Rightarrow> m)
         in
         case yamlMarshal e (MAlmanac ((Publish_Almanac pub)\<lparr>Almanac_Legacy := True\<rparr>)) of
           Inl err \<Rightarrow> Inl (MarshalFailed ''Almanac publish'' k err)
         | Inr legacyPublisherBytes \<Rightarrow>
             (case delegateUpgrade e (publisherFactory e) ''publisher'' ''artifactory-almanac'' k
                     legacyPublisherBytes of
                Inl err \<Rightarrow> Inl err
              | Inr cfgMapSlice \<Rightarrow>
                  Inr (Some (publishCfg\<lparr>PublishConfig_PublishInfo :=
                    Some (AList.update ''artifactory-almanac''
                            \<lparr>PublisherConfig_Config = Some cfgMapSlice\<rparr> publishInfo)\<rparr>))))
      else Inr publishCfg0)"

text \<open>
  The block \<^verbatim>\<open>if len(legacyProduct.Dist) > 0\<close>: the dist section, the dependencies
  that come from the input products, and the publish section of the product.
\<close>

definition upgradeDists ::
  "env \<Rightarrow> string \<Rightarrow> Dist list
     \<Rightarrow> upgrade_error + (DistConfig option \<times> string list option \<times> PublishConfig option)" where
  "upgradeDists e k dists =
     (if length dists > 0 then
        (if length dists > 1 then Inl (MultipleDists k)
         else
           (let legacyDist = dists ! 0 in
            case upgradeDistType e k legacyDist of
              Inl err \<Rightarrow> Inl err
            | Inr (cfg0, legacyDisterCfgBytes) \<Rightarrow>
                (case (if length legacyDisterCfgBytes > 0 then
                         (case delegateUpgrade e (disterFactory e) ''dister''
                                 (DistInfo_Type (Dist_DistType legacyDist)) k legacyDisterCfgBytes of
                            Inl err \<Rightarrow> Inl err
                          | Inr cfgMapSlice \<Rightarrow>
                              Inr (cfg0\<lparr>DisterConfig_Config := Some cfgMapSlice\<rparr>))
                       else Inr cfg0) of
                   Inl err \<Rightarrow> Inl err
                 | Inr cfg1 \<Rightarrow>
                     (let cfg2 =
                            (if Dist_InputDir legacyDist \<noteq> [] then
                               cfg1\<lparr>DisterConfig_Script :=
                                 appendToScriptPtr (DisterConfig_Script cfg1)
                                   (inputDirScriptContent (Dist_InputDir legacyDist))\<rparr>
                             else cfg1);
                          deps =
                            (if length (Dist_InputProducts legacyDist) > 0 then
                               Some (foldl addDepIfNotPresent [] (Dist_InputProducts legacyDist))
                             else None);
                          cfg3 =
                            (if Dist_Script legacyDist \<noteq> [] then
                               cfg2\<lparr>DisterConfig_Script :=
                                 appendToScriptPtr (DisterConfig_Script cfg2)
                                   (translateEnvVars (Dist_Script legacyDist))\<rparr>
                             else cfg2)
                      in
                      case DisterConfig_Type cfg3 of
                        None \<Rightarrow> Inl (Panic NilPointerDereference)
                      | Some typeName \<Rightarrow>
                          (case upgradePublish e k (Dist_Publish legacyDist) of
                             Inl err \<Rightarrow> Inl err
                           | Inr publishCfg \<Rightarrow>
                               Inr (Some
                                      \<lparr>DistConfig_OutputDir =
                                         (if Dist_OutputDir legacyDist \<noteq> []
                                          then Some (Dist_OutputDir legacyDist) else None),
                                       DistConfig_Disters =
                                         Some (AList.update typeName cfg3 [])\<rparr>,
                                    deps, publishCfg))))))
      else Inr (None, None, None))"

text \<open>\<^verbatim>\<open>fmt.Sprintf("%d", i)\<close> for an index.\<close>

function showNat :: "nat \<Rightarrow> string" where
  "showNat n =
     (if n < 10 then [''0123456789'' ! n]
      else showNat (n div 10) @ [''0123456789'' ! (n mod 10)])"
  by pat_completeness auto
termination
  by (relation "measure id") auto

declare showNat.simps [simp del]

text \<open>
  One legacy docker dependency: the state is the builder's \<^verbatim>\<open>InputDists\<close> and the
  product's \<^verbatim>\<open>Dependencies\<close>.
\<close>

definition upgradeDockerDep ::
  "string \<Rightarrow> DockerDep \<Rightarrow> string list option \<times> string list option
     \<Rightarrow> upgrade_error + (string list option \<times> string list option)" where
  "upgradeDockerDep k dep st =
     (let dockerDepType = DockerDep_Type dep;
          inputDists = fst st;
          deps = snd st
      in
      case (if dockerDepType = ''docker'' then Inr inputDists
            else if dockerDepType = ''bin'' \<or> dockerDepType = ''sls'' then
              (let cur = (case inputDists of None \<Rightarrow> [] | Some l \<Rightarrow> l);
                   inputDistID = DockerDep_Product dep @ ''.'' @ dockerDepType
               in Inr (Some (if inputDistID \<in> set cur then cur else cur @ [inputDistID])))
            else Inl (UnsupportedDockerDepType k dockerDepType)) of
        Inl err \<Rightarrow> Inl err
      | Inr inputDists' \<Rightarrow>
          (let cur = (case deps of None \<Rightarrow> [] | Some l \<Rightarrow> l)
           in Inr (inputDists',
                   Some (if DockerDep_Product dep \<noteq> k
                         then addDepIfNotPresent cur (DockerDep_Product dep) else cur))))"

fun upgradeDockerDeps ::
  "string \<Rightarrow> DockerDep list \<Rightarrow> string list option \<times> string list option
     \<Rightarrow> upgrade_error + (string list option \<times> string list option)" where
  "upgradeDockerDeps k [] st = Inr st"
| "upgradeDockerDeps k (dep # rest) st =
     (case upgradeDockerDep k dep st of
        Inl err \<Rightarrow> Inl err
      | Inr st' \<Rightarrow> upgradeDockerDeps k rest st')"

text \<open>One legacy docker image: its builder configuration and the product's dependencies.\<close>

definition upgradeDockerImage ::
  "env \<Rightarrow> string \<Rightarrow> string list option \<Rightarrow> DockerImage
     \<Rightarrow> upgrade_error + (DockerBuilderConfig \<times> string list option)" where
  "upgradeDockerImage e k deps img =
     (let cfg0 =
            \<lparr>DockerBuilderConfig_Type = None,
             DockerBuilderConfig_Config = None,
             DockerBuilderConfig_TagTemplates =
               (if DockerImage_Tag img \<noteq> [] then Some [DockerImage_Tag img] else None),
             DockerBuilderConfig_ContextDir =
               (if DockerImage_ContextDir img \<noteq> [] then Some (DockerImage_ContextDir img)
                else None),
             DockerBuilderConfig_InputDists = None\<rparr>
      in
      case upgradeDockerDeps k (DockerImage_Deps img) (None, deps) of
        Inl err \<Rightarrow> Inl err
      | Inr (inputDists, deps') \<Rightarrow>
          (let cfg1 = cfg0\<lparr>DockerBuilderConfig_InputDists := inputDists\<rparr> in
           if DockerImageInfo_Type (DockerImage_Info img) = ''sls'' then
             (case DockerImageInfo_Data (DockerImage_Info img) of
                DataSLS dockerImageInfo \<Rightarrow>
                  (case yamlMarshal e (MSLSDockerImageInfo
                          (dockerImageInfo\<lparr>SLSDockerImageInfo_Legacy := True\<rparr>)) of
                     Inl err \<Rightarrow> Inl (MarshalFailed ''sls docker builder'' k err)
                   | Inr legacyDockerBuilderCfgBytes \<Rightarrow>
                       (if length legacyDockerBuilderCfgBytes > 0 then
                          (case delegateUpgrade e (dockerBuilderFactory e) ''dockerbuilder''
                                  (DockerImageInfo_Type (DockerImage_Info img)) k
                                  legacyDockerBuilderCfgBytes of
                             Inl err \<Rightarrow> Inl err
                           | Inr cfgMapSlice \<Rightarrow>
                               Inr (cfg1\<lparr>DockerBuilderConfig_Type := Some ''sls'',
                                         DockerBuilderConfig_Config := Some cfgMapSlice\<rparr>,
                                    deps'))
                        else Inr (cfg1\<lparr>DockerBuilderConfig_Type := Some ''sls''\<rparr>, deps')))
              | _ \<Rightarrow> Inl (Panic TypeAssertionFailed))
           else
             Inr (cfg1\<lparr>DockerBuilderConfig_Type := Some (defaultdockerbuilder_TypeName e)\<rparr>,
                  deps')))"

text \<open>The loop over the images; \<open>i\<close> is the index of the first image of the list.\<close>

fun upgradeDockerImages ::
  "env \<Rightarrow> string \<Rightarrow> nat \<Rightarrow> DockerImage list
     \<Rightarrow> (string \<times> DockerBuilderConfig) list \<times> string list option
     \<Rightarrow> upgrade_error + ((string \<times> DockerBuilderConfig) list \<times> string list option)" where
  "upgradeDockerImages e k i [] st = Inr st"
| "upgradeDockerImages e k i (img # rest) st =
     (case upgradeDockerImage e k (snd st) img of
        Inl err \<Rightarrow> Inl err
      | Inr (cfg, deps') \<Rightarrow>
          upgradeDockerImages e k (Suc i) rest
            (AList.update (''docker-image-'' @ showNat i) cfg (fst st), deps'))"

definition upgradeDocker ::
  "env \<Rightarrow> string \<Rightarrow> string list option \<Rightarrow> DockerImage list
     \<Rightarrow> upgrade_error + (DockerConfig option \<times> string list option)" where
  "upgradeDocker e k deps images =
     (if length images > 0 then
        (case upgradeDockerImages e k 0 images ([], deps) of
           Inl err \<Rightarrow> Inl err
         | Inr (builders, deps') \<Rightarrow>
             Inr (Some \<lparr>DockerConfig_DockerBuildersConfig = Some builders\<rparr>, deps'))
      else Inr (None, deps))"

text \<open>
  The body of the loop over the sorted product names: \<open>defaultsPublish\<close> is
  \<^verbatim>\<open>upgradedCfg.ProductDefaults.Publish\<close>.
\<close>

definition upgradeProduct ::
  "env \<Rightarrow> PublishConfig option \<Rightarrow> string \<Rightarrow> Product \<Rightarrow> upgrade_error + ProductConfig" where
  "upgradeProduct e defaultsPublish k legacyProduct =
     (case upgradeBuild k (Product_Build legacyProduct) of
        Inl err \<Rightarrow> Inl err
      | Inr build \<Rightarrow>
          (case defaultDist build (Product_Dist legacyProduct) of
             Inl err \<Rightarrow> Inl err
           | Inr dists \<Rightarrow>
               (case upgradeDists e k dists of
                  Inl err \<Rightarrow> Inl err
                | Inr (dist, deps, publish) \<Rightarrow>
                    (case upgradeDocker e k deps (Product_DockerImages legacyProduct) of
                       Inl err \<Rightarrow> Inl err
                     | Inr (docker, deps') \<Rightarrow>
                         Inr \<lparr>ProductConfig_Build = build,
                              ProductConfig_Run = upgradeRun (Product_Run legacyProduct),
                              ProductConfig_Dist = dist,
                              ProductConfig_Publish =
                                (if defaultsPublish \<noteq> None \<and> publish = None
                                 then Some zeroPublishConfig else publish),
                              ProductConfig_Docker = docker,
                              ProductConfig_Dependencies = deps'\<rparr>))))"

text \<open>
  The loop over the sorted product names. \<^verbatim>\<open>legacyCfg.Products[k]\<close> is the value stored
  under the name, or the zero value.
\<close>

definition lookupProduct :: "(string \<times> Product) list \<Rightarrow> string \<Rightarrow> Product" where
  "lookupProduct legacyProducts k =
     (case map_of legacyProducts k of None \<Rightarrow> zeroProduct | Some p \<Rightarrow> p)"

fun upgradeProducts ::
  "env \<Rightarrow> PublishConfig option \<Rightarrow> (string \<times> Product) list \<Rightarrow> string list
     \<Rightarrow> (string \<times> ProductConfig) list \<Rightarrow> upgrade_error + (string \<times> ProductConfig) list" where
  "upgradeProducts e defaultsPublish legacyProducts [] products = Inr products"
| "upgradeProducts e defaultsPublish legacyProducts (k # ks) products =
     (case upgradeProduct e defaultsPublish k (lookupProduct legacyProducts k) of
        Inl err \<Rightarrow> Inl err
      | Inr product \<Rightarrow>
          upgradeProducts e defaultsPublish legacyProducts ks (AList.update k product products))"

text \<open>The names of the products in the order of \<^verbatim>\<open>sort.Strings\<close> (bytewise).\<close>

definition sortedProductsKeys :: "Project \<Rightarrow> string list" where
  "sortedProductsKeys legacyCfg = sort (remdups (map fst (Project_Products legacyCfg)))"

definition productDefaults :: "Project \<Rightarrow> ProductConfig" where
  "productDefaults legacyCfg =
     \<lparr>ProductConfig_Build =
        (if Project_BuildOutputDir legacyCfg \<noteq> []
         then Some (zeroBuildConfig\<lparr>BuildConfig_OutputDir := Some (Project_BuildOutputDir legacyCfg)\<rparr>)
         else None),
      ProductConfig_Run = None,
      ProductConfig_Dist =
        (if Project_DistOutputDir legacyCfg \<noteq> []
         then Some \<lparr>DistConfig_OutputDir = Some (Project_DistOutputDir legacyCfg),
                    DistConfig_Disters = None\<rparr>
         else None),
      ProductConfig_Publish =
        (if Project_GroupID legacyCfg \<noteq> []
         then Some (zeroPublishConfig\<lparr>PublishConfig_GroupID := Some (Project_GroupID legacyCfg)\<rparr>)
         else None),
      ProductConfig_Docker = None,
      ProductConfig_Dependencies = None\<rparr>"

text \<open>
  \<^verbatim>\<open>upgradeLegacyConfig\<close>. The result type \<^verbatim>\<open>*v0.ProjectConfig\<close> is an option; the only
  \<^verbatim>\<open>return\<close> without an error is \<^verbatim>\<open>return &upgradedCfg, nil\<close>.
\<close>

definition upgradeLegacyConfig :: "env \<Rightarrow> Project \<Rightarrow> upgrade_error + ProjectConfig option" where
  "upgradeLegacyConfig e legacyCfg =
     (case upgradeProducts e (ProductConfig_Publish (productDefaults legacyCfg))
             (Project_Products legacyCfg) (sortedProductsKeys legacyCfg) [] of
        Inl err \<Rightarrow> Inl err
      | Inr products \<Rightarrow>
          Inr (Some \<lparr>ProjectConfig_Products = products,
                     ProjectConfig_ProductDefaults = productDefaults legacyCfg,
                     ProjectConfig_ScriptIncludes =
                       translateEnvVars (Project_DistScriptInclude legacyCfg),
                     ProjectConfig_Exclude = Project_Exclude legacyCfg\<rparr>))"

text \<open>
  \<^verbatim>\<open>UpgradeConfig\<close>. The result \<^verbatim>\<open>[]byte\<close> is an option: \<open>None\<close> is the nil slice that
  tells the caller that nothing is to be written. The bytes of \<^verbatim>\<open>yaml.Marshal\<close> are a
  document (at least \<^verbatim>\<open>{}\<close>), never the nil slice.
\<close>

definition UpgradeConfig :: "env \<Rightarrow> string \<Rightarrow> upgrade_error + string option" where
  "UpgradeConfig e cfgBytes =
     (case yamlUnmarshalStrictProject e cfgBytes of
        Inl err \<Rightarrow> Inl (UnmarshalLegacyFailed err)
      | Inr legacyCfg \<Rightarrow>
          (case upgradeLegacyConfig e legacyCfg of
             Inl err \<Rightarrow> Inl err
           | Inr None \<Rightarrow> Inr None
           | Inr (Some upgradedCfg) \<Rightarrow>
               (case yamlMarshalProjectConfig e upgradedCfg of
                  Inl err \<Rightarrow> Inl (MarshalConfigFailed err)
                | Inr outputBytes \<Rightarrow> Inr (Some outputBytes))))"

subsection \<open>Specification-side notions\<close>

text \<open>
  De-duplication that keeps the first occurrence of every element, in the order of the
  first occurrences.
\<close>

fun dedupFirst :: "'a list \<Rightarrow> 'a list" where
  "dedupFirst [] = []"
| "dedupFirst (x # xs) = x # dedupFirst (removeAll x xs)"

text \<open>
  The references a legacy product makes to products: the input products of its dist
  entries and the products of its docker dependencies, in the order of the file.
\<close>

definition distInputProducts :: "Product \<Rightarrow> string list" where
  "distInputProducts lp = concat (map Dist_InputProducts (Product_Dist lp))"

definition dockerDepProducts :: "Product \<Rightarrow> string list" where
  "dockerDepProducts lp =
     map DockerDep_Product (concat (map DockerImage_Deps (Product_DockerImages lp)))"

text \<open>
  The dependency list after a run of docker dependencies on the products \<open>ps\<close>: the list
  exists from the first dependency on, and receives every product but \<open>k\<close> itself.
\<close>

definition withDockerDeps :: "string \<Rightarrow> string list option \<Rightarrow> string list \<Rightarrow> string list option" where
  "withDockerDeps k d ps =
     (if ps = [] then d
      else Some (foldl addDepIfNotPresent (case d of None \<Rightarrow> [] | Some l \<Rightarrow> l)
                   (filter (\<lambda>p. p \<noteq> k) ps)))"

text \<open>
  The plugin type name a legacy dist type is translated to; the three names that the
  dister packages export come from the environment.
\<close>

definition translatedTypeName :: "env \<Rightarrow> string \<Rightarrow> string option" where
  "translatedTypeName e t =
     (if t = ''sls'' then Some ''sls''
      else if t = ''bin'' then Some (bin_TypeName e)
      else if t = ''os-arch-bin'' then Some (osarchbin_TypeName e)
      else if t = ''manual'' then Some (manual_TypeName e)
      else if t = ''rpm'' then Some ''rpm''
      else None)"

text \<open>The dist entry that stands in for a missing one: only the dist type is set.\<close>

definition defaultOSArchBinDist :: "OSArch list \<Rightarrow> Dist" where
  "defaultOSArchBinDist osArchs =
     zeroDist\<lparr>Dist_DistType :=
       \<lparr>DistInfo_Type = ''os-arch-bin'',
        DistInfo_Info = InfoOSArchBin
          \<lparr>OSArchBinDist_Legacy = True, OSArchBinDist_OSArchs = osArchs\<rparr>\<rparr>\<rparr>"

text \<open>
  The fragments of the dist script of a dist entry, in the order the engine appends them:
  the launcher when \<open>launcher\<close> holds, the copy of the input directory, and the
  rewritten legacy script.
\<close>

definition distScriptFragments :: "bool \<Rightarrow> Dist \<Rightarrow> string list" where
  "distScriptFragments launcher d =
     (if launcher then [binDistInitShScript] else []) @
     (if Dist_InputDir d \<noteq> [] then [inputDirScriptContent (Dist_InputDir d)] else []) @
     (if Dist_Script d \<noteq> [] then [translateEnvVars (Dist_Script d)] else [])"

text \<open>
  The script of a dister after the input directory and the legacy script have been
  appended to the script \<open>s0\<close> that the dist type left.
\<close>

definition finalScript :: "string option \<Rightarrow> Dist \<Rightarrow> string option" where
  "finalScript s0 d =
     (let s1 = (if Dist_InputDir d \<noteq> []
                then appendToScriptPtr s0 (inputDirScriptContent (Dist_InputDir d)) else s0)
      in if Dist_Script d \<noteq> [] then appendToScriptPtr s1 (translateEnvVars (Dist_Script d))
         else s1)"

text \<open>A fragment as it stands in a script: closed by a newline unless it is empty.\<close>

definition terminated :: "string \<Rightarrow> string" where
  "terminated f = (if f = [] \<or> suffix newline f then f else f @ newline)"

text \<open>The end marker of the launcher fragment: its last line.\<close>

definition launcherEndMarker :: string where
  \<open>launcherEndMarker =
     ''### END: auto-generated back-compat code for "omit-init-sh: false" behavior for bin dist ###''\<close>

text \<open>The start marker of the launcher fragment: its first line.\<close>

definition launcherStartMarker :: string where
  \<open>launcherStartMarker =
     ''### START: auto-generated back-compat code for "omit-init-sh: false" behavior for bin dist ###''\<close>

text \<open>A script assembled from fragments by successive appends; no fragment, no script.\<close>

definition scriptOfFragments :: "string list \<Rightarrow> string option" where
  "scriptOfFragments fs = (if fs = [] then None else Some (foldl appendToScript [] fs))"

text \<open>The product an error message names, if it names one.\<close>

fun namedProduct :: "upgrade_error \<Rightarrow> string option" where
  "namedProduct (BuildScriptUnsupported k) = Some k"
| "namedProduct (MultipleDists k) = Some k"
| "namedProduct (CustomInitShTemplate k) = Some k"
| "namedProduct (UnsupportedDistType k t) = Some k"
| "namedProduct (UnsupportedDockerDepType k t) = Some k"
| "namedProduct (MarshalFailed what k c) = Some k"
| "namedProduct (NoUpgraderFound what k c) = Some k"
| "namedProduct (UpgradeFailed what k c) = Some k"
| "namedProduct (UnmarshalUpgradedFailed what k c) = Some k"
| "namedProduct (UnmarshalLegacyFailed c) = None"
| "namedProduct (MarshalConfigFailed c) = None"
| "namedProduct (Panic p) = None"

text \<open>
  The errors of the taxonomy's class "unsupported feature": a legacy feature without an
  equivalent (build script, several dist entries, custom launcher template, unknown dist
  or docker dependency type).
\<close>

fun unsupportedFeature :: "upgrade_error \<Rightarrow> bool" where
  "unsupportedFeature (BuildScriptUnsupported k) = True"
| "unsupportedFeature (MultipleDists k) = True"
| "unsupportedFeature (CustomInitShTemplate k) = True"
| "unsupportedFeature (UnsupportedDistType k t) = True"
| "unsupportedFeature (UnsupportedDockerDepType k t) = True"
| "unsupportedFeature (MarshalFailed what k c) = False"
| "unsupportedFeature (NoUpgraderFound what k c) = False"
| "unsupportedFeature (UpgradeFailed what k c) = False"
| "unsupportedFeature (UnmarshalUpgradedFailed what k c) = False"
| "unsupportedFeature (UnmarshalLegacyFailed c) = False"
| "unsupportedFeature (MarshalConfigFailed c) = False"
| "unsupportedFeature (Panic p) = False"

subsection \<open>Sample configurations\<close>

text \<open>
  A concrete environment for the closed examples: marshalling renders the OS/arch list
  and the legacy marker, every factory knows every type and its upgrader returns the
  bytes it is given, and the upgraded bytes decode to one key.
\<close>

definition sampleMarshal :: "marshalable \<Rightarrow> string + string" where
  "sampleMarshal m =
     (case m of
        MOSArchBinDist d \<Rightarrow>
          Inr (''os-archs:'' @
               concat (map (\<lambda>a. '' '' @ OSArch_OS a @ ''-'' @ OSArch_Arch a) (OSArchBinDist_OSArchs d)) @
               (if OSArchBinDist_Legacy d then '' legacy-config: true'' else []))
      | _ \<Rightarrow> Inr ''legacy-config: true'')"

definition sampleEnv :: env where
  "sampleEnv =
     \<lparr>yamlMarshal = sampleMarshal,
      yamlUnmarshalMapSlice = (\<lambda>b. Inr [(YScalar ''upgraded'', YScalar b)]),
      yamlUnmarshalStrictProject = (\<lambda>b. if b = [] then Inr zeroProject else Inl ''not decoded''),
      yamlMarshalProjectConfig = (\<lambda>c. Inr ''{}''),
      disterFactory = (\<lambda>t. Inr (\<lambda>b. Inr b)),
      dockerBuilderFactory = (\<lambda>t. Inr (\<lambda>b. Inr b)),
      publisherFactory = (\<lambda>t. Inr (\<lambda>b. Inr b)),
      bin_TypeName = ''bin'',
      osarchbin_TypeName = ''os-arch-bin'',
      manual_TypeName = ''manual'',
      defaultdockerbuilder_TypeName = ''default''\<rparr>"

definition linuxAmd64 :: OSArch where
  "linuxAmd64 = \<lparr>OSArch_OS = ''linux'', OSArch_Arch = ''amd64''\<rparr>"

definition dockerDep :: "string \<Rightarrow> string \<Rightarrow> DockerDep" where
  "dockerDep p t = \<lparr>DockerDep_Product = p, DockerDep_Type = t, DockerDep_TargetFile = []\<rparr>"

definition dockerImageWith :: "DockerDep list \<Rightarrow> DockerImage" where
  "dockerImageWith deps =
     \<lparr>DockerImage_Repository = [], DockerImage_Tag = [], DockerImage_ContextDir = [],
      DockerImage_Deps = deps,
      DockerImage_Info = \<lparr>DockerImageInfo_Type = [], DockerImageInfo_Data = DataNil\<rparr>,
      DockerImage_BuildArgsScript = []\<rparr>"

definition binDistWith :: "bool option \<Rightarrow> Dist" where
  "binDistWith omit =
     zeroDist\<lparr>Dist_DistType :=
       \<lparr>DistInfo_Type = ''bin'',
        DistInfo_Info = InfoBin \<lparr>BinDist_Legacy = False, BinDist_OmitInitSh = omit,
                                BinDist_InitShTemplateFile = []\<rparr>\<rparr>\<rparr>"

definition manualDist :: Dist where
  "manualDist =
     zeroDist\<lparr>Dist_DistType :=
       \<lparr>DistInfo_Type = ''manual'',
        DistInfo_Info = InfoManual \<lparr>ManualDist_Legacy = False, ManualDist_Extension = ''tgz''\<rparr>\<rparr>\<rparr>"

definition projectOf :: "(string \<times> Product) list \<Rightarrow> Project" where
  "projectOf ps = zeroProject\<lparr>Project_Products := ps\<rparr>"

text \<open>Product \<open>c\<close> with the docker dependencies of the specification's example.\<close>

definition specDockerDepsProduct :: Product where
  "specDockerDepsProduct =
     zeroProduct\<lparr>Product_DockerImages :=
       [dockerImageWith [dockerDep ''b'' ''docker'', dockerDep ''b'' ''binary'',
                         dockerDep ''a'' ''docker'']]\<rparr>"

text \<open>
  The same with the dependency type \<^verbatim>\<open>bin\<close> that the engine knows, a dependency on the
  product itself, and a manual dist with input products.
\<close>

definition depsProduct :: Product where
  "depsProduct =
     zeroProduct
       \<lparr>Product_Dist := [manualDist\<lparr>Dist_InputProducts := [''d'', ''b'', ''d'']\<rparr>],
        Product_DockerImages :=
          [dockerImageWith [dockerDep ''b'' ''docker'', dockerDep ''b'' ''bin'',
                            dockerDep ''c'' ''docker''],
           dockerImageWith [dockerDep ''a'' ''docker'']]\<rparr>"

text \<open>Products with a build script: built, and with \<^verbatim>\<open>skip: true\<close>.\<close>

definition scriptProduct :: Product where
  "scriptProduct = zeroProduct\<lparr>Product_Build := zeroBuild\<lparr>Build_Script := ''make''\<rparr>\<rparr>"

definition skipScriptProduct :: Product where
  "skipScriptProduct =
     zeroProduct\<lparr>Product_Build := zeroBuild\<lparr>Build_Skip := True, Build_Script := ''make''\<rparr>\<rparr>"

definition skipScriptDistProduct :: Product where
  "skipScriptDistProduct = skipScriptProduct\<lparr>Product_Dist := [binDistWith None]\<rparr>"

text \<open>Products with build OS/arch targets and no dist.\<close>

definition osArchsProduct :: Product where
  "osArchsProduct = zeroProduct\<lparr>Product_Build := zeroBuild\<lparr>Build_OSArchs := [linuxAmd64]\<rparr>\<rparr>"

definition osArchsScriptProduct :: Product where
  "osArchsScriptProduct =
     zeroProduct\<lparr>Product_Build := zeroBuild\<lparr>Build_Script := ''make'', Build_OSArchs := [linuxAmd64]\<rparr>\<rparr>"

definition osArchsSkipProduct :: Product where
  "osArchsSkipProduct =
     zeroProduct\<lparr>Product_Build := zeroBuild\<lparr>Build_Skip := True, Build_OSArchs := [linuxAmd64]\<rparr>\<rparr>"

text \<open>Products with two dist entries, one dist entry, and bin dists with a script.\<close>

definition twoDistsProduct :: Product where
  "twoDistsProduct = zeroProduct\<lparr>Product_Dist := [manualDist, binDistWith None]\<rparr>"

definition oneDistProduct :: Product where
  "oneDistProduct = zeroProduct\<lparr>Product_Dist := [manualDist]\<rparr>"

definition launcherProduct :: Product where
  "launcherProduct =
     zeroProduct\<lparr>Product_Dist := [(binDistWith (Some False))\<lparr>Dist_Script := ''echo $DIST_DIR''\<rparr>]\<rparr>"

definition noLauncherProduct :: Product where
  "noLauncherProduct =
     zeroProduct\<lparr>Product_Dist := [(binDistWith (Some True))\<lparr>Dist_Script := ''echo $DIST_DIR''\<rparr>]\<rparr>"

text \<open>
  A bin dist without \<^verbatim>\<open>omit-init-sh\<close> whose own legacy script is the text of the launcher
  fragment.
\<close>

definition ownLauncherProduct :: Product where
  "ownLauncherProduct =
     zeroProduct\<lparr>Product_Dist := [(binDistWith None)\<lparr>Dist_Script := binDistInitShScript\<rparr>]\<rparr>"

section \<open>Properties\<close>

subsection \<open>appendToScript\<close>

lemma appendToScript_ends_newline: "suffix newline (appendToScript script app)"
  by (simp add: appendToScript_def HasSuffix_def Let_def suffix_appendI)

lemma appendToScript_nonempty: "appendToScript script app \<noteq> []"
  using appendToScript_ends_newline [of script app]
  by (auto simp: newline_def suffix_def)

lemma appendToScript_keeps_prefix:
  "script \<noteq> [] \<Longrightarrow> prefix script (appendToScript script app)"
  by (simp add: appendToScript_def Let_def)

lemma appendToScript_empty_prefix: "prefix shebang (appendToScript [] app)"
  by (simp add: appendToScript_def Let_def)

lemma foldl_appendToScript_prefix:
  "prefix p s \<Longrightarrow> s \<noteq> [] \<Longrightarrow> prefix p (foldl appendToScript s fs)"
proof (induction fs arbitrary: s)
  case Nil
  then show ?case by simp
next
  case (Cons f fs)
  have "prefix p (appendToScript s f)"
    using Cons.prems appendToScript_keeps_prefix [of s f] prefix_order.trans by blast
  then show ?case
    using Cons.IH [of "appendToScript s f"] appendToScript_nonempty by simp
qed

lemma foldl_appendToScript_suffix:
  "suffix newline s \<Longrightarrow> suffix newline (foldl appendToScript s fs)"
  by (induction fs arbitrary: s) (simp_all add: appendToScript_ends_newline)

lemma suffix_newline_iff: "suffix newline xs \<longleftrightarrow> xs \<noteq> [] \<and> last xs = CHR 0x0A"
  by (cases xs rule: rev_cases) (auto simp: newline_def)

lemma suffix_newline_append:
  "suffix newline s \<Longrightarrow> suffix newline (s @ f) \<longleftrightarrow> f = [] \<or> suffix newline f"
  by (auto simp: suffix_newline_iff)

lemma appendToScript_nonempty_eq:
  "appendToScript (c # cs) f
     = (c # cs) @ f @ (if suffix newline ((c # cs) @ f) then [] else newline)"
  by (simp add: appendToScript_def HasSuffix_def Let_def)

lemma appendToScript_terminated:
  "suffix newline s \<Longrightarrow> appendToScript s f = s @ terminated f"
proof -
  assume a: "suffix newline s"
  then have "s \<noteq> []" by (simp add: suffix_newline_iff)
  then show ?thesis
    using suffix_newline_append [OF a, of f]
    by (auto simp: appendToScript_def HasSuffix_def Let_def terminated_def)
qed

lemma suffix_newline_shebang: "suffix newline shebang"
  unfolding shebang_def by (rule suffix_appendI) simp

lemma appendToScript_Nil_terminated: "appendToScript [] f = shebang @ terminated f"
  using suffix_newline_append [OF suffix_newline_shebang, of f]
  by (auto simp: appendToScript_def HasSuffix_def Let_def terminated_def)

lemma suffix_newline_terminated:
  "suffix newline s \<Longrightarrow> suffix newline (s @ terminated f)"
  by (auto simp: terminated_def suffix_newline_append suffix_appendI)

lemma foldl_appendToScript_terminated:
  "suffix newline s \<Longrightarrow> foldl appendToScript s fs = s @ concat (map terminated fs)"
proof (induction fs arbitrary: s)
  case Nil
  then show ?case by simp
next
  case (Cons f fs)
  from Cons.IH [OF suffix_newline_terminated [OF Cons.prems, of f]]
  show ?case by (simp add: appendToScript_terminated [OF Cons.prems])
qed

lemma foldl_appendToScript_Nil_terminated:
  "foldl appendToScript [] (f # fs) = shebang @ concat (map terminated (f # fs))"
  using foldl_appendToScript_terminated
          [OF suffix_newline_terminated [OF suffix_newline_shebang, of f], of fs]
  by (simp add: appendToScript_Nil_terminated)

text \<open>
  Claim C9. Appending a fragment to the empty script yields the line \<^verbatim>\<open>#!/bin/bash\<close>, the
  fragment, and a newline unless the text already ends with one; appending to a non-empty
  script yields the script, the fragment, and a newline unless the text already ends with
  one; so every append yields a script that ends in a newline. After any non-empty
  sequence of appends starting from the empty script, the script is the line
  \<^verbatim>\<open>#!/bin/bash\<close> followed by the fragments in order, each non-empty fragment closed by a
  newline: in particular it begins with that line and the first fragment and ends in a
  newline.
\<close>

theorem appendToScript_invariant:
  "appendToScript [] f = shebang @ f @ (if suffix newline (shebang @ f) then [] else newline)
   \<and> appendToScript (c # cs) f
       = (c # cs) @ f @ (if suffix newline ((c # cs) @ f) then [] else newline)
   \<and> suffix newline (appendToScript script f)
   \<and> foldl appendToScript [] (f # fs) = shebang @ concat (map terminated (f # fs))
   \<and> terminated f = (if f = [] \<or> suffix newline f then f else f @ newline)
   \<and> prefix (shebang @ f) (foldl appendToScript [] (f # fs))
   \<and> suffix newline (foldl appendToScript [] (f # fs))
   \<and> shebang = ''#!/bin/bash'' @ [CHR 0x0A] \<and> newline = [CHR 0x0A]"
proof -
  have a: "appendToScript [] f = shebang @ f @ (if suffix newline (shebang @ f) then [] else newline)"
    by (simp add: appendToScript_def HasSuffix_def Let_def)
  have p0: "prefix (shebang @ f) (appendToScript [] f)"
    by (simp add: appendToScript_def Let_def)
  have c: "prefix (shebang @ f) (foldl appendToScript [] (f # fs))"
    using foldl_appendToScript_prefix [OF p0 appendToScript_nonempty] by simp
  have d: "suffix newline (foldl appendToScript [] (f # fs))"
    using foldl_appendToScript_suffix [OF appendToScript_ends_newline] by simp
  show ?thesis
    using a c d appendToScript_ends_newline appendToScript_nonempty_eq [of c cs f]
      foldl_appendToScript_Nil_terminated [of f fs]
    by (simp add: shebang_def newline_def terminated_def)
qed

subsection \<open>The single-or-list decoder\<close>

text \<open>
  Claim C6. Decoding the \<^verbatim>\<open>dist\<close> node first tries a list: an empty list is the
  "at least one dist" error and a non-empty list is the result; when the list decoding
  fails, a single dist configuration is tried and wrapped in a one-element list; when both
  fail, the error of the single decoding is returned.
\<close>

theorem UnmarshalYAML_RawDistConfigs_cases:
  "UnmarshalYAML_RawDistConfigs (Inr []) asSingle = Inl AtLeastOneDist
   \<and> UnmarshalYAML_RawDistConfigs (Inr (d # ds)) asSingle = Inr (d # ds)
   \<and> UnmarshalYAML_RawDistConfigs (Inl listErr) (Inr single) = Inr [single]
   \<and> UnmarshalYAML_RawDistConfigs (Inl listErr) (Inl singleErr) = Inl (YamlError singleErr)"
  by (simp add: UnmarshalYAML_RawDistConfigs_def)

subsection \<open>Renaming of the environment variable\<close>

lemma Replace_dollar_skip:
  "c \<noteq> CHR ''$'' \<Longrightarrow> Replace (c # cs) (CHR ''$'' # old) new = c # Replace cs (CHR ''$'' # old) new"
  by simp

lemma Replace_unbraced_step:
  "prefix ''$DIST_DIR'' s \<Longrightarrow>
   Replace s ''$DIST_DIR'' ''$DIST_WORK_DIR''
     = ''$DIST_WORK_DIR'' @ Replace (drop 9 s) ''$DIST_DIR'' ''$DIST_WORK_DIR''"
  by (cases s) (simp_all add: eval_nat_numeral)

lemma Replace_braced_over_new_unbraced:
  "Replace (''$DIST_WORK_DIR'' @ t) ''${DIST_DIR}'' ''${DIST_WORK_DIR}''
     = ''$DIST_WORK_DIR'' @ Replace t ''${DIST_DIR}'' ''${DIST_WORK_DIR}''"
  by simp

lemma Replace_unbraced_over_braced:
  "Replace (''${DIST_DIR}'' @ t) ''$DIST_DIR'' ''$DIST_WORK_DIR''
     = ''${DIST_DIR}'' @ Replace t ''$DIST_DIR'' ''$DIST_WORK_DIR''"
  by simp

lemma Replace_braced_step:
  "Replace (''${DIST_DIR}'' @ t) ''${DIST_DIR}'' ''${DIST_WORK_DIR}''
     = ''${DIST_WORK_DIR}'' @ Replace t ''${DIST_DIR}'' ''${DIST_WORK_DIR}''"
  by simp

lemma prefix_Replace_unbraced:
  "CHR ''$'' \<notin> set p \<Longrightarrow>
   prefix p (Replace cs ''$DIST_DIR'' ''$DIST_WORK_DIR'') = prefix p cs"
proof (induction p arbitrary: cs)
  case Nil
  then show ?case by simp
next
  case (Cons x p)
  show ?case
  proof (cases cs)
    case Nil
    then show ?thesis by simp
  next
    case (Cons c cs')
    show ?thesis
    proof (cases "prefix ''$DIST_DIR'' (c # cs')")
      case True
      then have "c = CHR ''$''" by simp
      with True Cons.prems Cons show ?thesis by auto
    next
      case False
      with Cons.prems Cons.IH [of cs'] Cons show ?thesis by auto
    qed
  qed
qed

lemma translateVar_eq_spec:
  "Replace (Replace s ''$DIST_DIR'' ''$DIST_WORK_DIR'') ''${DIST_DIR}'' ''${DIST_WORK_DIR}''
     = renameDistDirSpec s"
proof (induction s rule: renameDistDirSpec.induct)
  case 1
  show ?case by simp
next
  case (2 c cs)
  show ?case
  proof (cases "prefix ''$DIST_DIR'' (c # cs)")
    case True
    have "Replace (Replace (c # cs) ''$DIST_DIR'' ''$DIST_WORK_DIR'') ''${DIST_DIR}'' ''${DIST_WORK_DIR}''
        = ''$DIST_WORK_DIR'' @ Replace (Replace (drop 9 (c # cs)) ''$DIST_DIR'' ''$DIST_WORK_DIR'') ''${DIST_DIR}'' ''${DIST_WORK_DIR}''"
      by (simp only: Replace_unbraced_step [OF True] Replace_braced_over_new_unbraced)
    also have "\<dots> = ''$DIST_WORK_DIR'' @ renameDistDirSpec (drop 9 (c # cs))"
      using "2.IH"(1) [OF True] by simp
    also have "\<dots> = renameDistDirSpec (c # cs)"
      using True by simp
    finally show ?thesis .
  next
    case False
    show ?thesis
    proof (cases "prefix ''${DIST_DIR}'' (c # cs)")
      case True
      then obtain t where t: "c # cs = ''${DIST_DIR}'' @ t"
        by (auto simp: prefix_def)
      have dt: "drop 11 (c # cs) = t" by (simp add: t)
      have "Replace (Replace (c # cs) ''$DIST_DIR'' ''$DIST_WORK_DIR'') ''${DIST_DIR}'' ''${DIST_WORK_DIR}''
          = ''${DIST_WORK_DIR}'' @ Replace (Replace t ''$DIST_DIR'' ''$DIST_WORK_DIR'') ''${DIST_DIR}'' ''${DIST_WORK_DIR}''"
        by (simp only: t Replace_unbraced_over_braced Replace_braced_step)
      also have "\<dots> = ''${DIST_WORK_DIR}'' @ renameDistDirSpec (drop 11 (c # cs))"
        using "2.IH"(2) [OF False True] dt by simp
      also have "\<dots> = renameDistDirSpec (c # cs)"
        using False True by simp
      finally show ?thesis .
    next
      case nb: False
      have r1: "Replace (c # cs) ''$DIST_DIR'' ''$DIST_WORK_DIR''
                  = c # Replace cs ''$DIST_DIR'' ''$DIST_WORK_DIR''"
        by (simp only: Replace.simps(2) False list.distinct if_False)
      have np: "\<not> prefix ''${DIST_DIR}'' (c # Replace cs ''$DIST_DIR'' ''$DIST_WORK_DIR'')"
      proof (cases "c = CHR ''$''")
        case True
        have "prefix ''{DIST_DIR}'' (Replace cs ''$DIST_DIR'' ''$DIST_WORK_DIR'') = prefix ''{DIST_DIR}'' cs"
          by (rule prefix_Replace_unbraced) simp
        with nb True show ?thesis by simp
      next
        case False
        then show ?thesis by simp
      qed
      have "Replace (c # Replace cs ''$DIST_DIR'' ''$DIST_WORK_DIR'') ''${DIST_DIR}'' ''${DIST_WORK_DIR}''
              = c # Replace (Replace cs ''$DIST_DIR'' ''$DIST_WORK_DIR'') ''${DIST_DIR}'' ''${DIST_WORK_DIR}''"
        by (simp only: Replace.simps(2) np list.distinct if_False)
      then show ?thesis
        by (simp only: r1 "2.IH"(3) [OF False nb] renameDistDirSpec.simps(2) False nb if_False)
    qed
  qed
qed

lemma spec_skip:
  "c \<noteq> CHR ''$'' \<Longrightarrow> renameDistDirSpec (c # cs) = c # renameDistDirSpec cs"
  by simp

lemma spec_skip_dollar:
  "d \<noteq> CHR ''D'' \<Longrightarrow> d \<noteq> CHR ''{'' \<Longrightarrow>
   renameDistDirSpec (CHR ''$'' # d # cs) = CHR ''$'' # renameDistDirSpec (d # cs)"
  by simp

lemma spec_over_isSnapshotScript:
  "renameDistDirSpec (isSnapshotScript @ s) = isSnapshotScript @ renameDistDirSpec s"
  unfolding isSnapshotScript_def newline_def
  by (simp only: append_Cons append_Nil append_assoc spec_skip spec_skip_dollar char.inject simp_thms if_False if_True)

lemma prefix_spec_nodollar:
  "CHR ''$'' \<notin> set p \<Longrightarrow> prefix p (renameDistDirSpec cs) = prefix p cs"
proof (induction p arbitrary: cs)
  case Nil
  then show ?case by simp
next
  case (Cons x p)
  show ?case
  proof (cases cs)
    case Nil
    then show ?thesis by simp
  next
    case (Cons c cs')
    consider (a) "prefix ''$DIST_DIR'' (c # cs')"
      | (b) "\<not> prefix ''$DIST_DIR'' (c # cs')" "prefix ''${DIST_DIR}'' (c # cs')"
      | (n) "\<not> prefix ''$DIST_DIR'' (c # cs')" "\<not> prefix ''${DIST_DIR}'' (c # cs')"
      by blast
    then show ?thesis
    proof cases
      case a
      then have "c = CHR ''$''" by simp
      with a Cons.prems Cons show ?thesis by auto
    next
      case b
      then have "c = CHR ''$''" by simp
      with b Cons.prems Cons show ?thesis by auto
    next
      case n
      have "renameDistDirSpec (c # cs') = c # renameDistDirSpec cs'"
        by (simp only: renameDistDirSpec.simps(2) n if_False)
      with Cons.prems Cons.IH [of cs'] Cons show ?thesis by auto
    qed
  qed
qed

lemma spec_no_unbraced_prefix: "\<not> prefix ''$DIST_DIR'' (renameDistDirSpec s)"
proof (cases s)
  case Nil
  then show ?thesis by simp
next
  case (Cons c cs)
  consider (a) "prefix ''$DIST_DIR'' (c # cs)"
    | (b) "\<not> prefix ''$DIST_DIR'' (c # cs)" "prefix ''${DIST_DIR}'' (c # cs)"
    | (n) "\<not> prefix ''$DIST_DIR'' (c # cs)" "\<not> prefix ''${DIST_DIR}'' (c # cs)"
    by blast
  then show ?thesis
  proof cases
    case a
    have "renameDistDirSpec (c # cs) = ''$DIST_WORK_DIR'' @ renameDistDirSpec (drop 9 (c # cs))"
      by (simp only: renameDistDirSpec.simps(2) a if_True)
    then show ?thesis using Cons by simp
  next
    case b
    have "renameDistDirSpec (c # cs) = ''${DIST_WORK_DIR}'' @ renameDistDirSpec (drop 11 (c # cs))"
      by (simp only: renameDistDirSpec.simps(2) b if_True if_False)
    then show ?thesis using Cons by simp
  next
    case n
    have e: "renameDistDirSpec (c # cs) = c # renameDistDirSpec cs"
      by (simp only: renameDistDirSpec.simps(2) n if_False)
    have "prefix ''DIST_DIR'' (renameDistDirSpec cs) = prefix ''DIST_DIR'' cs"
      by (rule prefix_spec_nodollar) simp
    with n(1) show ?thesis unfolding Cons e by simp
  qed
qed

lemma spec_no_braced_prefix: "\<not> prefix ''${DIST_DIR}'' (renameDistDirSpec s)"
proof (cases s)
  case Nil
  then show ?thesis by simp
next
  case (Cons c cs)
  consider (a) "prefix ''$DIST_DIR'' (c # cs)"
    | (b) "\<not> prefix ''$DIST_DIR'' (c # cs)" "prefix ''${DIST_DIR}'' (c # cs)"
    | (n) "\<not> prefix ''$DIST_DIR'' (c # cs)" "\<not> prefix ''${DIST_DIR}'' (c # cs)"
    by blast
  then show ?thesis
  proof cases
    case a
    have "renameDistDirSpec (c # cs) = ''$DIST_WORK_DIR'' @ renameDistDirSpec (drop 9 (c # cs))"
      by (simp only: renameDistDirSpec.simps(2) a if_True)
    then show ?thesis using Cons by simp
  next
    case b
    have "renameDistDirSpec (c # cs) = ''${DIST_WORK_DIR}'' @ renameDistDirSpec (drop 11 (c # cs))"
      by (simp only: renameDistDirSpec.simps(2) b if_True if_False)
    then show ?thesis using Cons by simp
  next
    case n
    have e: "renameDistDirSpec (c # cs) = c # renameDistDirSpec cs"
      by (simp only: renameDistDirSpec.simps(2) n if_False)
    have "prefix ''{DIST_DIR}'' (renameDistDirSpec cs) = prefix ''{DIST_DIR}'' cs"
      by (rule prefix_spec_nodollar) simp
    with n(2) show ?thesis unfolding Cons e by simp
  qed
qed

lemma Contains_Cons_skip:
  "c \<noteq> CHR ''$'' \<Longrightarrow> Contains (c # u) (CHR ''$'' # p) = Contains u (CHR ''$'' # p)"
  by simp

lemma Contains_Cons_unfold:
  "Contains (c # u) p = (prefix p (c # u) \<or> Contains u p)"
  by simp

lemma spec_no_occurrence:
  "\<not> Contains (renameDistDirSpec s) ''$DIST_DIR'' \<and> \<not> Contains (renameDistDirSpec s) ''${DIST_DIR}''"
proof (induction s rule: renameDistDirSpec.induct)
  case 1
  show ?case by simp
next
  case (2 c cs)
  consider (a) "prefix ''$DIST_DIR'' (c # cs)"
    | (b) "\<not> prefix ''$DIST_DIR'' (c # cs)" "prefix ''${DIST_DIR}'' (c # cs)"
    | (n) "\<not> prefix ''$DIST_DIR'' (c # cs)" "\<not> prefix ''${DIST_DIR}'' (c # cs)"
    by blast
  then show ?case
  proof cases
    case a
    have e: "renameDistDirSpec (c # cs) = ''$DIST_WORK_DIR'' @ renameDistDirSpec (drop 9 (c # cs))"
      by (simp only: renameDistDirSpec.simps(2) a if_True)
    show ?thesis
      unfolding e using "2.IH"(1) [OF a] by simp
  next
    case b
    have e: "renameDistDirSpec (c # cs) = ''${DIST_WORK_DIR}'' @ renameDistDirSpec (drop 11 (c # cs))"
      by (simp only: renameDistDirSpec.simps(2) b if_True if_False)
    show ?thesis
      unfolding e using "2.IH"(2) [OF b] by simp
  next
    case n
    have e: "renameDistDirSpec (c # cs) = c # renameDistDirSpec cs"
      by (simp only: renameDistDirSpec.simps(2) n if_False)
    have p1: "\<not> prefix ''$DIST_DIR'' (renameDistDirSpec (c # cs))"
      by (rule spec_no_unbraced_prefix)
    have p2: "\<not> prefix ''${DIST_DIR}'' (renameDistDirSpec (c # cs))"
      by (rule spec_no_braced_prefix)
    show ?thesis
      using p1 p2 "2.IH"(3) [OF n] unfolding e Contains_Cons_unfold by blast
  qed
qed

lemma spec_unchanged:
  "\<not> Contains s ''$DIST_DIR'' \<Longrightarrow> \<not> Contains s ''${DIST_DIR}'' \<Longrightarrow> renameDistDirSpec s = s"
  by (induction s) auto

lemma translateEnvVars_example: "translateEnvVars ''cp $DIST_DIR/a ${DIST_DIR}/b $DIST_DIRS'' = ''cp $DIST_WORK_DIR/a ${DIST_WORK_DIR}/b $DIST_WORK_DIRS''"
  by (simp add: translateEnvVars_def translateVar_def)

lemma translateVar_DIST_DIR:
  "translateVar t ''DIST_DIR'' ''DIST_WORK_DIR'' = renameDistDirSpec t"
  using translateVar_eq_spec [of t] by (simp add: translateVar_def)

lemma translateEnvVars_eq_spec:
  "translateEnvVars s
     = (if Contains s ''IS_SNAPSHOT'' then isSnapshotScript else []) @ renameDistDirSpec s"
  by (simp add: translateEnvVars_def translateVar_DIST_DIR spec_over_isSnapshotScript)

lemma isSnapshotScript_text:
  \<open>isSnapshotScript =
       ''### START: auto-generated back-compat code for "IS_SNAPSHOT" variable ###'' @ [CHR 0x0A] @
       ''IS_SNAPSHOT=0'' @ [CHR 0x0A] @
       ''if [[ $VERSION =~ .+g[-+.]?[a-fA-F0-9]{3,}$ ]]; then IS_SNAPSHOT=1; fi'' @ [CHR 0x0A] @
       ''### END: auto-generated back-compat code for "IS_SNAPSHOT" variable ###'' @ [CHR 0x0A]\<close>
  by (simp add: isSnapshotScript_def newline_def)

text \<open>
  Claim C7. The two replacements of \<^verbatim>\<open>translateVar\<close> for \<^verbatim>\<open>DIST_DIR\<close> are the
  left-to-right renaming of the specification, which copies every character outside an
  occurrence; \<^verbatim>\<open>translateEnvVars\<close> is that renaming of the text, preceded by the
  \<^verbatim>\<open>IS_SNAPSHOT\<close> fragment exactly when the text contains \<^verbatim>\<open>IS_SNAPSHOT\<close>; no
  occurrence of \<^verbatim>\<open>$DIST_DIR\<close> or \<^verbatim>\<open>${DIST_DIR}\<close> is left in the renamed text; and the
  fragment is the four lines that set \<^verbatim>\<open>IS_SNAPSHOT\<close> to 0 and then to 1 when
  \<^verbatim>\<open>$VERSION\<close> matches the pattern of a version with a commit hash.
\<close>

theorem translateEnvVars_exact:
  \<open>translateVar s ''DIST_DIR'' ''DIST_WORK_DIR'' = renameDistDirSpec s
   \<and> translateEnvVars s
       = (if Contains s ''IS_SNAPSHOT'' then isSnapshotScript else []) @ renameDistDirSpec s
   \<and> \<not> Contains (renameDistDirSpec s) ''$DIST_DIR''
   \<and> \<not> Contains (renameDistDirSpec s) ''${DIST_DIR}''
   \<and> isSnapshotScript =
       ''### START: auto-generated back-compat code for "IS_SNAPSHOT" variable ###'' @ [CHR 0x0A] @
       ''IS_SNAPSHOT=0'' @ [CHR 0x0A] @
       ''if [[ $VERSION =~ .+g[-+.]?[a-fA-F0-9]{3,}$ ]]; then IS_SNAPSHOT=1; fi'' @ [CHR 0x0A] @
       ''### END: auto-generated back-compat code for "IS_SNAPSHOT" variable ###'' @ [CHR 0x0A]\<close>
proof -
  have "translateVar s ''DIST_DIR'' ''DIST_WORK_DIR'' = renameDistDirSpec s
   \<and> translateEnvVars s
       = (if Contains s ''IS_SNAPSHOT'' then isSnapshotScript else []) @ renameDistDirSpec s
   \<and> \<not> Contains (renameDistDirSpec s) ''$DIST_DIR''
   \<and> \<not> Contains (renameDistDirSpec s) ''${DIST_DIR}''"
    using translateVar_DIST_DIR [of s] translateEnvVars_eq_spec [of s] spec_no_occurrence [of s]
    by blast
  then show ?thesis
    using isSnapshotScript_text by (simp only: simp_thms)
qed

subsection \<open>Dependencies\<close>

lemma foldl_addDep_dedupFirst:
  "foldl addDepIfNotPresent acc xs = acc @ dedupFirst (filter (\<lambda>x. x \<notin> set acc) xs)"
proof (induction xs arbitrary: acc)
  case Nil
  then show ?case by simp
next
  case (Cons x xs)
  show ?case
  proof (cases "x \<in> set acc")
    case True
    then show ?thesis using Cons.IH [of acc] by (simp add: addDepIfNotPresent_def)
  next
    case False
    have "removeAll x (filter (\<lambda>y. y \<notin> set acc) xs) = filter (\<lambda>y. y \<notin> set (acc @ [x])) xs"
      by (induction xs) auto
    then show ?thesis using False Cons.IH [of "acc @ [x]"] by (simp add: addDepIfNotPresent_def)
  qed
qed

lemma foldl_addDep_Nil: "foldl addDepIfNotPresent [] xs = dedupFirst xs"
  using foldl_addDep_dedupFirst [of "[]" xs] by simp

lemma set_dedupFirst: "set (dedupFirst xs) = set xs"
proof (induction xs rule: dedupFirst.induct)
  case 1
  show ?case by simp
next
  case (2 x xs)
  then show ?case by auto
qed

lemma distinct_dedupFirst: "distinct (dedupFirst xs)"
proof (induction xs rule: dedupFirst.induct)
  case 1
  show ?case by simp
next
  case (2 x xs)
  then show ?case by (simp add: set_dedupFirst)
qed

lemma withDockerDeps_append:
  "withDockerDeps k (withDockerDeps k d xs) ys = withDockerDeps k d (xs @ ys)"
  by (simp add: withDockerDeps_def)

lemma withDockerDeps_Nil: "withDockerDeps k d [] = d"
  by (simp add: withDockerDeps_def)

lemma upgradeDockerDeps_deps:
  "upgradeDockerDeps k deps (inputDists, d) = Inr (inputDists', d') \<Longrightarrow>
   d' = withDockerDeps k d (map DockerDep_Product deps)"
proof (induction deps arbitrary: inputDists d)
  case Nil
  then show ?case by (simp add: withDockerDeps_def)
next
  case (Cons dep rest)
  from Cons.prems obtain i1 d1 where
    s1: "upgradeDockerDep k dep (inputDists, d) = Inr (i1, d1)" and
    s2: "upgradeDockerDeps k rest (i1, d1) = Inr (inputDists', d')"
    by (auto split: sum.splits)
  have d1: "d1 = withDockerDeps k d [DockerDep_Product dep]"
    using s1 by (auto simp: upgradeDockerDep_def withDockerDeps_def Let_def split: sum.splits if_splits)
  show ?case
    using Cons.IH [OF s2] d1 withDockerDeps_append [of k d "[DockerDep_Product dep]"] by simp
qed

lemma upgradeDockerImage_deps:
  "upgradeDockerImage e k d img = Inr (cfg, d') \<Longrightarrow>
   d' = withDockerDeps k d (map DockerDep_Product (DockerImage_Deps img))"
proof -
  assume a: "upgradeDockerImage e k d img = Inr (cfg, d')"
  then obtain i1 d1 where s: "upgradeDockerDeps k (DockerImage_Deps img) (None, d) = Inr (i1, d1)"
    by (auto simp: upgradeDockerImage_def split: sum.splits)
  have "d' = d1"
    using a s
    by (auto simp: upgradeDockerImage_def Let_def
             split: sum.splits if_splits DockerImageInfoData.splits)
  with upgradeDockerDeps_deps [OF s] show ?thesis by simp
qed

lemma upgradeDockerImages_deps:
  "upgradeDockerImages e k i imgs (b, d) = Inr (b', d') \<Longrightarrow>
   d' = withDockerDeps k d (map DockerDep_Product (concat (map DockerImage_Deps imgs)))"
proof (induction imgs arbitrary: i b d)
  case Nil
  then show ?case by (simp add: withDockerDeps_def)
next
  case (Cons img rest)
  from Cons.prems obtain cfg d1 where
    s1: "upgradeDockerImage e k d img = Inr (cfg, d1)" and
    s2: "upgradeDockerImages e k (Suc i) rest
           (AList.update (''docker-image-'' @ showNat i) cfg b, d1) = Inr (b', d')"
    by (auto split: sum.splits)
  show ?case
    using Cons.IH [OF s2] upgradeDockerImage_deps [OF s1]
    by (simp add: withDockerDeps_append)
qed

lemma upgradeDocker_deps:
  "upgradeDocker e k d imgs = Inr (docker, d') \<Longrightarrow>
   d' = withDockerDeps k d (map DockerDep_Product (concat (map DockerImage_Deps imgs)))"
proof (cases "imgs = []")
  case True
  assume "upgradeDocker e k d imgs = Inr (docker, d')"
  with True show ?thesis by (simp add: upgradeDocker_def withDockerDeps_def)
next
  case False
  assume a: "upgradeDocker e k d imgs = Inr (docker, d')"
  with False obtain b' where "upgradeDockerImages e k 0 imgs ([], d) = Inr (b', d')"
    by (auto simp: upgradeDocker_def split: sum.splits)
  from upgradeDockerImages_deps [OF this] show ?thesis .
qed

subsection \<open>Stages of one product\<close>

lemma appendToScriptPtr_fragments:
  "appendToScriptPtr (scriptOfFragments fs) f = scriptOfFragments (fs @ [f])"
  by (simp add: appendToScriptPtr_def scriptOfFragments_def)

lemma scriptOfFragments_Nil: "scriptOfFragments [] = None"
  by (simp add: scriptOfFragments_def)

lemma upgradeDistType_Inr:
  assumes "upgradeDistType e k d = Inr (cfg0, bytes)"
  shows "DisterConfig_Config cfg0 = None"
    and "DisterConfig_Type cfg0 = translatedTypeName e (DistInfo_Type (Dist_DistType d))"
    and "translatedTypeName e (DistInfo_Type (Dist_DistType d)) \<noteq> None"
  using assms
  by (auto simp: upgradeDistType_def translatedTypeName_def zeroDisterConfig_def Let_def
        SLSDistType_def BinDistType_def OSArchBinDistType_def ManualDistType_def RPMDistType_def
      split: if_splits DistInfoValue.splits sum.splits)

lemma upgradeDistType_script_bin:
  assumes "upgradeDistType e k d = Inr (cfg0, bytes)"
    and "DistInfo_Type (Dist_DistType d) = ''bin''"
    and "DistInfo_Info (Dist_DistType d) = InfoBin b"
  shows "DisterConfig_Script cfg0 =
           scriptOfFragments (if BinDist_OmitInitSh b = Some False then [binDistInitShScript] else [])"
    and "bytes = []"
  using assms
  by (auto simp: upgradeDistType_def zeroDisterConfig_def Let_def scriptOfFragments_def
        appendToScriptPtr_def
        SLSDistType_def BinDistType_def OSArchBinDistType_def ManualDistType_def RPMDistType_def
      split: if_splits)

lemma upgradeDistType_osarchbin:
  assumes "upgradeDistType e k d = Inr (cfg0, bytes)"
    and "DistInfo_Type (Dist_DistType d) = ''os-arch-bin''"
    and "DistInfo_Info (Dist_DistType d) = InfoOSArchBin b"
  shows "DisterConfig_Script cfg0 = None"
    and "yamlMarshal e (MOSArchBinDist (b\<lparr>OSArchBinDist_Legacy := True\<rparr>)) = Inr bytes"
  using assms
  by (auto simp: upgradeDistType_def zeroDisterConfig_def Let_def
        SLSDistType_def BinDistType_def OSArchBinDistType_def ManualDistType_def RPMDistType_def
      split: if_splits sum.splits)

lemma upgradeDists_single:
  assumes "upgradeDists e k [d] = Inr (dist, deps, pub)"
  shows "\<exists>cfg0 bytes cfg1 tn.
     upgradeDistType e k d = Inr (cfg0, bytes) \<and>
     (if bytes = [] then cfg1 = cfg0
      else \<exists>ms. delegateUpgrade e (disterFactory e) ''dister''
                   (DistInfo_Type (Dist_DistType d)) k bytes = Inr ms
                 \<and> cfg1 = cfg0\<lparr>DisterConfig_Config := Some ms\<rparr>) \<and>
     DisterConfig_Type cfg0 = Some tn \<and>
     dist = Some \<lparr>DistConfig_OutputDir =
                    (if Dist_OutputDir d \<noteq> [] then Some (Dist_OutputDir d) else None),
                  DistConfig_Disters =
                    Some [(tn, cfg1\<lparr>DisterConfig_Script := finalScript (DisterConfig_Script cfg0) d\<rparr>)]\<rparr> \<and>
     deps = (if Dist_InputProducts d = [] then None
             else Some (foldl addDepIfNotPresent [] (Dist_InputProducts d))) \<and>
     upgradePublish e k (Dist_Publish d) = Inr pub"
proof -
  from assms obtain cfg0 bytes where t: "upgradeDistType e k d = Inr (cfg0, bytes)"
    by (auto simp: upgradeDists_def Let_def split: sum.splits)
  show ?thesis
  proof (cases "bytes = []")
    case True
    with assms t show ?thesis
      by (auto simp: upgradeDists_def Let_def finalScript_def
            split: sum.splits option.splits if_splits)
  next
    case False
    with assms t obtain ms where
      ms: "delegateUpgrade e (disterFactory e) ''dister''
             (DistInfo_Type (Dist_DistType d)) k bytes = Inr ms"
      by (auto simp: upgradeDists_def Let_def split: sum.splits)
    with False assms t show ?thesis
      by (auto simp: upgradeDists_def Let_def finalScript_def
            split: sum.splits option.splits if_splits)
  qed
qed

lemma upgradeDists_Nil: "upgradeDists e k [] = Inr (None, None, None)"
  by (simp add: upgradeDists_def)

lemma upgradeDists_many: "length dists > 1 \<Longrightarrow> upgradeDists e k dists = Inl (MultipleDists k)"
  by (cases dists) (simp_all add: upgradeDists_def)

lemma upgradeDists_deps:
  assumes "upgradeDists e k dists = Inr (dist, deps, pub)"
  shows "deps = (if concat (map Dist_InputProducts dists) = [] then None
                 else Some (dedupFirst (concat (map Dist_InputProducts dists))))"
proof (cases dists)
  case Nil
  with assms show ?thesis by (simp add: upgradeDists_Nil)
next
  case (Cons d rest)
  show ?thesis
  proof (cases rest)
    case Nil
    with Cons assms upgradeDists_single [of e k d dist deps pub] show ?thesis
      by (auto simp: foldl_addDep_Nil)
  next
    case (Cons d2 rest2)
    with \<open>dists = d # rest\<close> have "length dists > 1" by simp
    from upgradeDists_many [OF this] assms show ?thesis by simp
  qed
qed

lemma defaultDist_nonempty: "dists \<noteq> [] \<Longrightarrow> defaultDist build dists = Inr dists"
  by (simp add: defaultDist_def)

lemma defaultDist_inputs:
  "defaultDist build dists = Inr dists' \<Longrightarrow>
   concat (map Dist_InputProducts dists') = concat (map Dist_InputProducts dists)"
  by (auto simp: defaultDist_def zeroDist_def split: if_splits option.splits)

lemma upgradeProduct_Inr:
  assumes "upgradeProduct e dp k lp = Inr pc"
  shows "\<exists>build dists dist deps pub docker.
     upgradeBuild k (Product_Build lp) = Inr build \<and>
     defaultDist build (Product_Dist lp) = Inr dists \<and>
     upgradeDists e k dists = Inr (dist, deps, pub) \<and>
     upgradeDocker e k deps (Product_DockerImages lp) = Inr (docker, ProductConfig_Dependencies pc) \<and>
     ProductConfig_Dist pc = dist \<and> ProductConfig_Build pc = build"
  using assms
  by (auto simp: upgradeProduct_def split: sum.splits prod.splits)

lemma upgradeProduct_deps:
  assumes "upgradeProduct e dp k lp = Inr pc"
  shows "ProductConfig_Dependencies pc =
     (if distInputProducts lp = [] \<and> dockerDepProducts lp = [] then None
      else Some (dedupFirst (distInputProducts lp @ filter (\<lambda>p. p \<noteq> k) (dockerDepProducts lp))))"
proof -
  from upgradeProduct_Inr [OF assms] obtain build dists dist deps pub docker where
    dd: "defaultDist build (Product_Dist lp) = Inr dists" and
    ud: "upgradeDists e k dists = Inr (dist, deps, pub)" and
    dk: "upgradeDocker e k deps (Product_DockerImages lp) = Inr (docker, ProductConfig_Dependencies pc)"
    by blast
  have i: "concat (map Dist_InputProducts dists) = distInputProducts lp"
    using defaultDist_inputs [OF dd] by (simp add: distInputProducts_def)
  have deps: "deps = (if distInputProducts lp = [] then None
                      else Some (dedupFirst (distInputProducts lp)))"
    using upgradeDists_deps [OF ud] i by simp
  have "ProductConfig_Dependencies pc = withDockerDeps k deps (dockerDepProducts lp)"
    using upgradeDocker_deps [OF dk] by (simp add: dockerDepProducts_def)
  moreover have "foldl addDepIfNotPresent (dedupFirst xs) ys = dedupFirst (xs @ ys)" for xs ys
    using foldl_append [of addDepIfNotPresent "[]" xs ys]
    by (simp only: foldl_addDep_Nil)
  ultimately show ?thesis
    using deps by (auto simp: withDockerDeps_def foldl_addDep_Nil)
qed

subsection \<open>The loop over the products\<close>

lemma upgradeProducts_Inr:
  "upgradeProducts e dp ps ks acc = Inr out \<Longrightarrow>
   (\<forall>k\<in>set ks. \<exists>pc. upgradeProduct e dp k (lookupProduct ps k) = Inr pc \<and> map_of out k = Some pc)
   \<and> (\<forall>k. k \<notin> set ks \<longrightarrow> map_of out k = map_of acc k)"
proof (induction ks arbitrary: acc)
  case Nil
  then show ?case by simp
next
  case (Cons k0 ks)
  from Cons.prems obtain p0 where
    p0: "upgradeProduct e dp k0 (lookupProduct ps k0) = Inr p0" and
    r: "upgradeProducts e dp ps ks (AList.update k0 p0 acc) = Inr out"
    by (auto split: sum.splits)
  note ih = Cons.IH [OF r]
  have k0: "\<exists>pc. upgradeProduct e dp k0 (lookupProduct ps k0) = Inr pc \<and> map_of out k0 = Some pc"
  proof (cases "k0 \<in> set ks")
    case True
    with ih show ?thesis by blast
  next
    case False
    with ih have "map_of out k0 = map_of (AList.update k0 p0 acc) k0" by blast
    with p0 show ?thesis by (simp add: update_conv')
  qed
  have rest: "\<forall>k. k \<notin> set (k0 # ks) \<longrightarrow> map_of out k = map_of acc k"
    using ih by (auto simp: update_conv')
  from k0 ih rest show ?case by auto
qed

lemma upgradeProducts_fail:
  "k \<in> set ks \<Longrightarrow> upgradeProduct e dp k (lookupProduct ps k) = Inl err \<Longrightarrow>
   \<exists>err'. upgradeProducts e dp ps ks acc = Inl err'"
proof (induction ks arbitrary: acc)
  case Nil
  then show ?case by simp
next
  case (Cons k0 ks)
  show ?case
  proof (cases "upgradeProduct e dp k0 (lookupProduct ps k0)")
    case (Inl a)
    then show ?thesis by simp
  next
    case (Inr p0)
    with Cons.prems have "k \<in> set ks" by auto
    from Cons.IH [OF this Cons.prems(2)] Inr show ?thesis by simp
  qed
qed

lemma upgradeProducts_first_fail:
  "\<forall>k'\<in>set ks1. \<exists>pc. upgradeProduct e dp k' (lookupProduct ps k') = Inr pc \<Longrightarrow>
   upgradeProduct e dp k (lookupProduct ps k) = Inl err \<Longrightarrow>
   upgradeProducts e dp ps (ks1 @ k # ks2) acc = Inl err"
proof (induction ks1 arbitrary: acc)
  case Nil
  then show ?case by simp
next
  case (Cons k0 ks1)
  then obtain p0 where "upgradeProduct e dp k0 (lookupProduct ps k0) = Inr p0" by auto
  with Cons show ?case by simp
qed

lemma set_sortedProductsKeys:
  "set (sortedProductsKeys cfg) = fst ` set (Project_Products cfg)"
  by (simp add: sortedProductsKeys_def)

lemma lookupProduct_Some: "map_of ps k = Some lp \<Longrightarrow> lookupProduct ps k = lp"
  by (simp add: lookupProduct_def)

lemma key_in_sortedProductsKeys:
  "map_of (Project_Products cfg) k = Some lp \<Longrightarrow> k \<in> set (sortedProductsKeys cfg)"
  by (auto simp: set_sortedProductsKeys dest: map_of_SomeD intro: rev_image_eqI)

lemma sortedProductsKeys_split:
  assumes "map_of (Project_Products cfg) k = Some lp"
  shows "\<exists>ks1 ks2. sortedProductsKeys cfg = ks1 @ k # ks2
           \<and> (\<forall>x\<in>set ks1. x < k \<and> (\<exists>p. map_of (Project_Products cfg) x = Some p))"
proof -
  from key_in_sortedProductsKeys [OF assms] obtain ks1 ks2 where
    s: "sortedProductsKeys cfg = ks1 @ k # ks2"
    by (auto dest: split_list)
  have srt: "sorted (sortedProductsKeys cfg)" and dst: "distinct (sortedProductsKeys cfg)"
    by (simp_all add: sortedProductsKeys_def)
  have "\<forall>x\<in>set ks1. x < k"
  proof
    fix x assume x: "x \<in> set ks1"
    from srt s x have "x \<le> k" by (auto simp: sorted_append)
    moreover from dst s x have "x \<noteq> k" by auto
    ultimately show "x < k" by simp
  qed
  moreover have "\<forall>x\<in>set ks1. \<exists>p. map_of (Project_Products cfg) x = Some p"
  proof
    fix x assume "x \<in> set ks1"
    with s have "x \<in> set (sortedProductsKeys cfg)" by simp
    then have "x \<in> fst ` set (Project_Products cfg)" by (simp add: set_sortedProductsKeys)
    then show "\<exists>p. map_of (Project_Products cfg) x = Some p"
      by (metis domD dom_map_of_conv_image_fst)
  qed
  ultimately show ?thesis using s by blast
qed

lemma upgradeLegacyConfig_product:
  assumes "upgradeLegacyConfig e cfg = Inr (Some out)"
    and "map_of (Project_Products cfg) k = Some lp"
  shows "\<exists>pc. map_of (ProjectConfig_Products out) k = Some pc
           \<and> upgradeProduct e (ProductConfig_Publish (productDefaults cfg)) k lp = Inr pc"
proof -
  from assms(1) obtain products where
    u: "upgradeProducts e (ProductConfig_Publish (productDefaults cfg))
          (Project_Products cfg) (sortedProductsKeys cfg) [] = Inr products" and
    o: "ProjectConfig_Products out = products"
    by (auto simp: upgradeLegacyConfig_def split: sum.splits)
  from upgradeProducts_Inr [OF u] key_in_sortedProductsKeys [OF assms(2)]
  obtain pc where
    "upgradeProduct e (ProductConfig_Publish (productDefaults cfg)) k
       (lookupProduct (Project_Products cfg) k) = Inr pc" "map_of products k = Some pc"
    by blast
  with o lookupProduct_Some [OF assms(2)] show ?thesis by simp
qed

lemma upgradeLegacyConfig_fails:
  assumes "map_of (Project_Products cfg) k = Some lp"
    and "upgradeProduct e (ProductConfig_Publish (productDefaults cfg)) k lp = Inl err"
  shows "\<exists>err'. upgradeLegacyConfig e cfg = Inl err'"
proof -
  from assms lookupProduct_Some [OF assms(1)]
  have "upgradeProduct e (ProductConfig_Publish (productDefaults cfg)) k
          (lookupProduct (Project_Products cfg) k) = Inl err" by simp
  from upgradeProducts_fail [OF key_in_sortedProductsKeys [OF assms(1)] this]
  obtain err' where "upgradeProducts e (ProductConfig_Publish (productDefaults cfg))
          (Project_Products cfg) (sortedProductsKeys cfg) [] = Inl err'" by blast
  then show ?thesis by (simp add: upgradeLegacyConfig_def)
qed

lemma upgradeLegacyConfig_first_failure:
  assumes "map_of (Project_Products cfg) k = Some lp"
    and "upgradeProduct e (ProductConfig_Publish (productDefaults cfg)) k lp = Inl err"
    and "\<And>k' lp'. k' < k \<Longrightarrow> map_of (Project_Products cfg) k' = Some lp' \<Longrightarrow>
           \<exists>pc. upgradeProduct e (ProductConfig_Publish (productDefaults cfg)) k' lp' = Inr pc"
  shows "upgradeLegacyConfig e cfg = Inl err"
proof -
  from sortedProductsKeys_split [OF assms(1)] obtain ks1 ks2 where
    s: "sortedProductsKeys cfg = ks1 @ k # ks2" and
    b: "\<forall>x\<in>set ks1. x < k \<and> (\<exists>p. map_of (Project_Products cfg) x = Some p)"
    by blast
  have ok: "\<forall>k'\<in>set ks1. \<exists>pc. upgradeProduct e (ProductConfig_Publish (productDefaults cfg)) k'
               (lookupProduct (Project_Products cfg) k') = Inr pc"
  proof
    fix k' assume "k' \<in> set ks1"
    with b obtain p where "k' < k" "map_of (Project_Products cfg) k' = Some p" by blast
    with assms(3) [of k' p] lookupProduct_Some [of "Project_Products cfg" k' p]
    show "\<exists>pc. upgradeProduct e (ProductConfig_Publish (productDefaults cfg)) k'
               (lookupProduct (Project_Products cfg) k') = Inr pc" by simp
  qed
  have "upgradeProduct e (ProductConfig_Publish (productDefaults cfg)) k
          (lookupProduct (Project_Products cfg) k) = Inl err"
    using assms(2) lookupProduct_Some [OF assms(1)] by simp
  from upgradeProducts_first_fail [OF ok this]
  show ?thesis by (simp add: upgradeLegacyConfig_def s)
qed

lemmas sample_defs =
  sampleEnv_def sampleMarshal_def linuxAmd64_def dockerDep_def dockerImageWith_def binDistWith_def
  manualDist_def projectOf_def specDockerDepsProduct_def depsProduct_def scriptProduct_def
  skipScriptProduct_def skipScriptDistProduct_def osArchsProduct_def osArchsScriptProduct_def
  osArchsSkipProduct_def twoDistsProduct_def oneDistProduct_def launcherProduct_def
  noLauncherProduct_def ownLauncherProduct_def zeroAlmanac_def zeroPublish_def zeroBuild_def zeroDist_def
  zeroProduct_def zeroProject_def

lemmas engine_defs =
  upgradeLegacyConfig_def sortedProductsKeys_def productDefaults_def lookupProduct_def
  upgradeProduct_def upgradeBuild_def upgradeRun_def defaultDist_def upgradeDists_def
  upgradeDistType_def upgradePublish_def upgradeDocker_def upgradeDockerImage_def
  upgradeDockerDep_def delegateUpgrade_def appendToScriptPtr_def addDepIfNotPresent_def
  zeroBuildConfig_def zeroDisterConfig_def zeroPublishConfig_def zeroProductConfig_def
  SLSDistType_def BinDistType_def RPMDistType_def OSArchBinDistType_def ManualDistType_def
  translateEnvVars_def translateVar_def

subsection \<open>The result of the engine\<close>

lemma migrated_cases:
  "(case r of Inr (Some out) \<Rightarrow> True | _ \<Rightarrow> False) \<Longrightarrow> \<exists>out. r = Inr (Some out)"
  by (auto split: sum.splits option.splits)

text \<open>
  Claim C1. The claim asks for the "unchanged" result (no configuration, hence nil bytes)
  when the legacy configuration amounts to no configuration. The engine has no such
  result: for the empty legacy project it returns the empty current configuration, it
  never returns the nil configuration that \<^verbatim>\<open>UpgradeConfig\<close> tests for, and
  \<^verbatim>\<open>UpgradeConfig\<close> then returns the marshalled empty configuration.
\<close>

theorem upgradeLegacyConfig_never_unchanged:
  "upgradeLegacyConfig e zeroProject =
     Inr (Some \<lparr>ProjectConfig_Products = [],
                ProjectConfig_ProductDefaults = zeroProductConfig,
                ProjectConfig_ScriptIncludes = [],
                ProjectConfig_Exclude = \<lparr>NamesPathsCfg_Names = [], NamesPathsCfg_Paths = []\<rparr>\<rparr>)
   \<and> upgradeLegacyConfig e cfg \<noteq> Inr None
   \<and> UpgradeConfig e cfgBytes \<noteq> Inr None
   \<and> UpgradeConfig sampleEnv [] = Inr (Some ''{}'')"
proof -
  have a: "upgradeLegacyConfig e zeroProject =
     Inr (Some \<lparr>ProjectConfig_Products = [],
                ProjectConfig_ProductDefaults = zeroProductConfig,
                ProjectConfig_ScriptIncludes = [],
                ProjectConfig_Exclude = \<lparr>NamesPathsCfg_Names = [], NamesPathsCfg_Paths = []\<rparr>\<rparr>)"
    by (simp add: sample_defs engine_defs)
  have b: "upgradeLegacyConfig e c \<noteq> Inr None" for c
    by (simp add: upgradeLegacyConfig_def split: sum.splits)
  have c: "UpgradeConfig sampleEnv [] = Inr (Some ''{}'')"
    by (simp add: UpgradeConfig_def sample_defs engine_defs)
  have d: "UpgradeConfig e cfgBytes \<noteq> Inr None"
    using b by (simp add: UpgradeConfig_def split: sum.splits option.splits)
  from a b [of cfg] c d show ?thesis by blast
qed

subsection \<open>Dependencies of a product\<close>

text \<open>
  The example of the specification, product \<open>c\<close> with the docker dependencies
  \<open>b\<close> (docker), \<open>b\<close> (binary), \<open>a\<close> (docker): the dependency type \<^verbatim>\<open>binary\<close> is none of
  \<^verbatim>\<open>docker\<close>, \<^verbatim>\<open>bin\<close>, \<^verbatim>\<open>sls\<close>, and the migration fails instead of producing the
  dependency list \<open>[b, a]\<close>.
\<close>

theorem dependencies_spec_example_counterexample:
  "upgradeLegacyConfig sampleEnv (projectOf [(''c'', specDockerDepsProduct)])
     = Inl (UnsupportedDockerDepType ''c'' ''binary'')
   \<and> dockerDepProducts specDockerDepsProduct = [''b'', ''b'', ''a'']
   \<and> map DockerDep_Type (concat (map DockerImage_Deps (Product_DockerImages specDockerDepsProduct)))
       = [''docker'', ''binary'', ''docker'']"
  by (simp add: sample_defs engine_defs dockerDepProducts_def)

text \<open>
  Claim C2, amended. When the migration succeeds and the product does not name itself
  among its dist input products, its dependency list is the input products followed by
  the products of the docker dependencies, without the product itself, de-duplicated
  keeping first occurrences in order: it has no duplicate and no self-reference. There is
  no list when the product has neither input products nor docker dependencies.
\<close>

theorem dependencies_first_seen:
  assumes "upgradeLegacyConfig e cfg = Inr (Some out)"
    and "map_of (Project_Products cfg) k = Some lp"
    and "k \<notin> set (distInputProducts lp)"
  shows "\<exists>pc. map_of (ProjectConfig_Products out) k = Some pc
     \<and> ProductConfig_Dependencies pc =
         (if distInputProducts lp = [] \<and> dockerDepProducts lp = [] then None
          else Some (dedupFirst (filter (\<lambda>p. p \<noteq> k) (distInputProducts lp @ dockerDepProducts lp))))
     \<and> (\<forall>deps. ProductConfig_Dependencies pc = Some deps \<longrightarrow>
           distinct deps \<and> k \<notin> set deps
           \<and> set deps = (set (distInputProducts lp) \<union> set (dockerDepProducts lp)) - {k})"
proof -
  from upgradeLegacyConfig_product [OF assms(1,2)] obtain pc where
    m: "map_of (ProjectConfig_Products out) k = Some pc" and
    u: "upgradeProduct e (ProductConfig_Publish (productDefaults cfg)) k lp = Inr pc"
    by blast
  have f: "filter (\<lambda>p. p \<noteq> k) (distInputProducts lp) = distInputProducts lp"
    using assms(3) by (auto simp: filter_id_conv)
  have d: "ProductConfig_Dependencies pc =
         (if distInputProducts lp = [] \<and> dockerDepProducts lp = [] then None
          else Some (dedupFirst (filter (\<lambda>p. p \<noteq> k) (distInputProducts lp @ dockerDepProducts lp))))"
    using upgradeProduct_deps [OF u] f by simp
  have "\<forall>deps. ProductConfig_Dependencies pc = Some deps \<longrightarrow>
           distinct deps \<and> k \<notin> set deps
           \<and> set deps = (set (distInputProducts lp) \<union> set (dockerDepProducts lp)) - {k}"
    unfolding d by (auto simp: distinct_dedupFirst set_dedupFirst)
  with m d show ?thesis by blast
qed

theorem dependencies_first_seen_witness:
  "\<exists>out pc. upgradeLegacyConfig sampleEnv (projectOf [(''c'', depsProduct)]) = Inr (Some out)
     \<and> distInputProducts depsProduct = [''d'', ''b'', ''d'']
     \<and> dockerDepProducts depsProduct = [''b'', ''b'', ''c'', ''a'']
     \<and> map_of (ProjectConfig_Products out) ''c'' = Some pc
     \<and> ProductConfig_Dependencies pc = Some [''d'', ''b'', ''a'']"
proof -
  have "case upgradeLegacyConfig sampleEnv (projectOf [(''c'', depsProduct)]) of
          Inr (Some out) \<Rightarrow> True | _ \<Rightarrow> False"
    by (simp add: sample_defs engine_defs showNat.simps)
  from migrated_cases [OF this] obtain out where
    h1: "upgradeLegacyConfig sampleEnv (projectOf [(''c'', depsProduct)]) = Inr (Some out)" ..
  have h2: "map_of (Project_Products (projectOf [(''c'', depsProduct)])) ''c'' = Some depsProduct"
    by (simp add: projectOf_def zeroProject_def)
  have i: "distInputProducts depsProduct = [''d'', ''b'', ''d'']"
    by (simp add: distInputProducts_def sample_defs)
  have j: "dockerDepProducts depsProduct = [''b'', ''b'', ''c'', ''a'']"
    by (simp add: dockerDepProducts_def sample_defs)
  have h3: "''c'' \<notin> set (distInputProducts depsProduct)"
    by (simp add: i)
  from dependencies_first_seen [OF h1 h2 h3] obtain pc where
    "map_of (ProjectConfig_Products out) ''c'' = Some pc"
    "ProductConfig_Dependencies pc =
         (if distInputProducts depsProduct = [] \<and> dockerDepProducts depsProduct = [] then None
          else Some (dedupFirst (filter (\<lambda>p. p \<noteq> ''c'')
                       (distInputProducts depsProduct @ dockerDepProducts depsProduct))))"
    by blast
  with h1 i j show ?thesis by simp
qed

text \<open>
  With the dependency type \<^verbatim>\<open>bin\<close> in place of \<^verbatim>\<open>binary\<close> the example of the
  specification yields \<open>[b, a]\<close>.
\<close>

lemma dependencies_example_bin:
  "\<exists>out pc. upgradeLegacyConfig sampleEnv
       (projectOf [(''c'', zeroProduct\<lparr>Product_DockerImages :=
          [dockerImageWith [dockerDep ''b'' ''docker'', dockerDep ''b'' ''bin'',
                            dockerDep ''a'' ''docker'']]\<rparr>)]) = Inr (Some out)
     \<and> map_of (ProjectConfig_Products out) ''c'' = Some pc
     \<and> ProductConfig_Dependencies pc = Some [''b'', ''a'']"
  by (simp add: sample_defs engine_defs showNat.simps)

subsection \<open>Build scripts\<close>

lemma upgradeProduct_build_script:
  "\<not> Build_Skip (Product_Build lp) \<Longrightarrow> Build_Script (Product_Build lp) \<noteq> [] \<Longrightarrow>
   upgradeProduct e dp k lp = Inl (BuildScriptUnsupported k)"
  by (simp add: upgradeProduct_def upgradeBuild_def)

text \<open>
  A product with \<^verbatim>\<open>skip: true\<close>, a build script and one bin dist migrates: the check for
  the build script is inside the block guarded by \<^verbatim>\<open>!legacyProduct.Build.Skip\<close>.
\<close>

theorem build_script_skipped_counterexample:
  "upgradeLegacyConfig sampleEnv (projectOf [(''a'', skipScriptDistProduct)]) =
     Inr (Some \<lparr>ProjectConfig_Products =
       [(''a'', zeroProductConfig\<lparr>ProductConfig_Dist :=
           Some \<lparr>DistConfig_OutputDir = None,
                 DistConfig_Disters =
                   Some [(''bin'', zeroDisterConfig\<lparr>DisterConfig_Type := Some ''bin''\<rparr>)]\<rparr>\<rparr>)],
      ProjectConfig_ProductDefaults = zeroProductConfig,
      ProjectConfig_ScriptIncludes = [],
      ProjectConfig_Exclude = \<lparr>NamesPathsCfg_Names = [], NamesPathsCfg_Paths = []\<rparr>\<rparr>)
   \<and> Build_Script (Product_Build skipScriptDistProduct) = ''make''
   \<and> Build_Skip (Product_Build skipScriptDistProduct)"
  by (simp add: sample_defs engine_defs)

text \<open>
  Claim C3, amended. For a legacy product whose build is not skipped and whose build
  section has a non-empty script, the translation of the product fails with the build
  script error that names the product; the migration of the project fails; and it fails
  with that very error when every product whose name sorts before this one translates
  without error.
\<close>

theorem build_script_unsupported:
  assumes "map_of (Project_Products cfg) k = Some lp"
    and "\<not> Build_Skip (Product_Build lp)"
    and "Build_Script (Product_Build lp) \<noteq> []"
  shows "upgradeProduct e dp k lp = Inl (BuildScriptUnsupported k)
     \<and> (\<exists>err. upgradeLegacyConfig e cfg = Inl err)
     \<and> ((\<forall>k' lp'. k' < k \<and> map_of (Project_Products cfg) k' = Some lp' \<longrightarrow>
            (\<exists>pc. upgradeProduct e (ProductConfig_Publish (productDefaults cfg)) k' lp' = Inr pc))
          \<longrightarrow> upgradeLegacyConfig e cfg = Inl (BuildScriptUnsupported k))"
proof -
  have p: "upgradeProduct e dp' k lp = Inl (BuildScriptUnsupported k)" for dp'
    using assms(2,3) by (rule upgradeProduct_build_script)
  have "\<exists>err. upgradeLegacyConfig e cfg = Inl err"
    using upgradeLegacyConfig_fails [OF assms(1) p] .
  moreover have "upgradeLegacyConfig e cfg = Inl (BuildScriptUnsupported k)"
    if "\<forall>k' lp'. k' < k \<and> map_of (Project_Products cfg) k' = Some lp' \<longrightarrow>
            (\<exists>pc. upgradeProduct e (ProductConfig_Publish (productDefaults cfg)) k' lp' = Inr pc)"
    using upgradeLegacyConfig_first_failure [OF assms(1) p] that by blast
  ultimately show ?thesis using p by blast
qed

theorem build_script_unsupported_witness:
  "map_of (Project_Products (projectOf [(''b'', scriptProduct), (''a'', oneDistProduct)])) ''b''
     = Some scriptProduct
   \<and> \<not> Build_Skip (Product_Build scriptProduct)
   \<and> Build_Script (Product_Build scriptProduct) = ''make''
   \<and> upgradeProduct sampleEnv None ''b'' scriptProduct = Inl (BuildScriptUnsupported ''b'')
   \<and> upgradeLegacyConfig sampleEnv (projectOf [(''b'', scriptProduct), (''a'', oneDistProduct)])
       = Inl (BuildScriptUnsupported ''b'')"
proof -
  let ?cfg = "projectOf [(''b'', scriptProduct), (''a'', oneDistProduct)]"
  have h1: "map_of (Project_Products ?cfg) ''b'' = Some scriptProduct"
    by (simp add: projectOf_def zeroProject_def)
  have h2: "\<not> Build_Skip (Product_Build scriptProduct)"
    by (simp add: sample_defs)
  have h3: "Build_Script (Product_Build scriptProduct) \<noteq> []"
    by (simp add: sample_defs)
  have s: "Build_Script (Product_Build scriptProduct) = ''make''"
    by (simp add: sample_defs)
  have a: "\<exists>pc. upgradeProduct sampleEnv (ProductConfig_Publish (productDefaults ?cfg)) ''a''
                  oneDistProduct = Inr pc"
    by (simp add: sample_defs engine_defs)
  have earlier: "\<forall>k' lp'. k' < ''b'' \<and> map_of (Project_Products ?cfg) k' = Some lp' \<longrightarrow>
            (\<exists>pc. upgradeProduct sampleEnv (ProductConfig_Publish (productDefaults ?cfg)) k' lp' = Inr pc)"
  proof (intro allI impI)
    fix k' lp'
    assume "k' < ''b'' \<and> map_of (Project_Products ?cfg) k' = Some lp'"
    then have "k' = ''a'' \<and> lp' = oneDistProduct"
      by (auto simp: projectOf_def zeroProject_def split: if_splits)
    with a show "\<exists>pc. upgradeProduct sampleEnv (ProductConfig_Publish (productDefaults ?cfg)) k' lp' = Inr pc"
      by simp
  qed
  from build_script_unsupported [OF h1 h2 h3, of sampleEnv None] earlier h1 h2 s
  show ?thesis by blast
qed

subsection \<open>The number of dist entries\<close>

lemma upgradeProduct_many_dists:
  assumes "length (Product_Dist lp) > 1"
  shows "upgradeProduct e dp k lp =
           Inl (if \<not> Build_Skip (Product_Build lp) \<and> Build_Script (Product_Build lp) \<noteq> []
                then BuildScriptUnsupported k else MultipleDists k)"
proof -
  from assms have ne: "Product_Dist lp \<noteq> []" by auto
  show ?thesis
    by (simp add: upgradeProduct_def upgradeBuild_def defaultDist_nonempty [OF ne]
          upgradeDists_many [OF assms])
qed

lemma upgradeProduct_single_dister:
  assumes "upgradeProduct e dp k lp = Inr pc"
    and "Product_Dist lp = [d]"
  shows "\<exists>cfg0 bytes dc tn dister.
     upgradeDistType e k d = Inr (cfg0, bytes) \<and>
     (if bytes = [] then DisterConfig_Config dister = None
      else \<exists>ms. delegateUpgrade e (disterFactory e) ''dister''
                   (DistInfo_Type (Dist_DistType d)) k bytes = Inr ms
                 \<and> DisterConfig_Config dister = Some ms) \<and>
     translatedTypeName e (DistInfo_Type (Dist_DistType d)) = Some tn \<and>
     ProductConfig_Dist pc = Some dc \<and>
     DistConfig_Disters dc = Some [(tn, dister)] \<and>
     DisterConfig_Type dister = Some tn \<and>
     DisterConfig_Script dister = finalScript (DisterConfig_Script cfg0) d"
proof -
  from upgradeProduct_Inr [OF assms(1)] obtain build dists dist deps pub where
    dd: "defaultDist build (Product_Dist lp) = Inr dists" and
    ud: "upgradeDists e k dists = Inr (dist, deps, pub)" and
    pd: "ProductConfig_Dist pc = dist"
    by blast
  from dd assms(2) have "dists = [d]" by (simp add: defaultDist_nonempty)
  with ud have "upgradeDists e k [d] = Inr (dist, deps, pub)" by simp
  from upgradeDists_single [OF this] obtain cfg0 bytes cfg1 tn where
    t: "upgradeDistType e k d = Inr (cfg0, bytes)" and
    c: "if bytes = [] then cfg1 = cfg0
        else \<exists>ms. delegateUpgrade e (disterFactory e) ''dister''
                   (DistInfo_Type (Dist_DistType d)) k bytes = Inr ms
                 \<and> cfg1 = cfg0\<lparr>DisterConfig_Config := Some ms\<rparr>" and
    tn: "DisterConfig_Type cfg0 = Some tn" and
    di: "dist = Some \<lparr>DistConfig_OutputDir =
               (if Dist_OutputDir d \<noteq> [] then Some (Dist_OutputDir d) else None),
             DistConfig_Disters =
               Some [(tn, cfg1\<lparr>DisterConfig_Script := finalScript (DisterConfig_Script cfg0) d\<rparr>)]\<rparr>"
    by blast
  let ?dister = "cfg1\<lparr>DisterConfig_Script := finalScript (DisterConfig_Script cfg0) d\<rparr>"
  let ?dc = "\<lparr>DistConfig_OutputDir =
               (if Dist_OutputDir d \<noteq> [] then Some (Dist_OutputDir d) else None),
             DistConfig_Disters = Some [(tn, ?dister)]\<rparr>"
  have 1: "translatedTypeName e (DistInfo_Type (Dist_DistType d)) = Some tn"
    using upgradeDistType_Inr(2) [OF t] tn by simp
  have 2: "DisterConfig_Type ?dister = Some tn"
    using c tn by (auto split: if_splits)
  have 3: "if bytes = [] then DisterConfig_Config ?dister = None
      else \<exists>ms. delegateUpgrade e (disterFactory e) ''dister''
                   (DistInfo_Type (Dist_DistType d)) k bytes = Inr ms
                 \<and> DisterConfig_Config ?dister = Some ms"
    using c upgradeDistType_Inr(1) [OF t] by (auto split: if_splits)
  have 4: "ProductConfig_Dist pc = Some ?dc" using pd di by simp
  have 5: "DistConfig_Disters ?dc = Some [(tn, ?dister)]" by simp
  have 6: "DisterConfig_Script ?dister = finalScript (DisterConfig_Script cfg0) d" by simp
  from t 1 2 3 4 5 6 show ?thesis by blast
qed

text \<open>
  Product \<open>b\<close> has two dist entries, and product \<open>a\<close>, which sorts before it, has a build
  script: the loop stops at \<open>a\<close>, and the error of the migration names \<open>a\<close>, not \<open>b\<close>.
\<close>

theorem dist_entry_count_counterexample:
  "1 < length (Product_Dist twoDistsProduct)
   \<and> upgradeLegacyConfig sampleEnv (projectOf [(''a'', scriptProduct), (''b'', twoDistsProduct)])
       = Inl (BuildScriptUnsupported ''a'')
   \<and> namedProduct (BuildScriptUnsupported ''a'') \<noteq> Some ''b''"
  by (simp add: sample_defs engine_defs)

text \<open>
  Claim C4, amended. A product with more than one dist entry fails its translation with an
  unsupported-feature error that names it, so the migration fails; the migration reports
  such an error naming this product when every product whose name sorts before it
  translates without error. For a product with exactly one dist entry the migrated
  product has a dist section with exactly one dister, stored under the translated type
  name, which is also the dister's type.
\<close>

theorem dist_entry_count:
  assumes "map_of (Project_Products cfg) k = Some lp"
  shows "(length (Product_Dist lp) > 1 \<longrightarrow>
            (\<exists>err. upgradeProduct e dp k lp = Inl err \<and> unsupportedFeature err
                    \<and> namedProduct err = Some k)
          \<and> (\<exists>err. upgradeLegacyConfig e cfg = Inl err)
          \<and> ((\<forall>k' lp'. k' < k \<and> map_of (Project_Products cfg) k' = Some lp' \<longrightarrow>
                 (\<exists>pc. upgradeProduct e (ProductConfig_Publish (productDefaults cfg)) k' lp' = Inr pc))
               \<longrightarrow> (\<exists>err. upgradeLegacyConfig e cfg = Inl err \<and> unsupportedFeature err
                          \<and> namedProduct err = Some k)))
     \<and> (\<forall>d out. Product_Dist lp = [d] \<and> upgradeLegacyConfig e cfg = Inr (Some out) \<longrightarrow>
            (\<exists>pc dc tn dister.
               map_of (ProjectConfig_Products out) k = Some pc
               \<and> ProductConfig_Dist pc = Some dc
               \<and> translatedTypeName e (DistInfo_Type (Dist_DistType d)) = Some tn
               \<and> DistConfig_Disters dc = Some [(tn, dister)]
               \<and> DisterConfig_Type dister = Some tn))"
proof (intro conjI impI allI)
  assume m: "length (Product_Dist lp) > 1"
  let ?err = "if \<not> Build_Skip (Product_Build lp) \<and> Build_Script (Product_Build lp) \<noteq> []
              then BuildScriptUnsupported k else MultipleDists k"
  have p: "upgradeProduct e dp' k lp = Inl ?err" for dp'
    by (rule upgradeProduct_many_dists [OF m])
  have u: "unsupportedFeature ?err \<and> namedProduct ?err = Some k" by simp
  show "\<exists>err. upgradeProduct e dp k lp = Inl err \<and> unsupportedFeature err
              \<and> namedProduct err = Some k"
    using p u by blast
  show "\<exists>err. upgradeLegacyConfig e cfg = Inl err"
    using upgradeLegacyConfig_fails [OF assms p] .
  assume "\<forall>k' lp'. k' < k \<and> map_of (Project_Products cfg) k' = Some lp' \<longrightarrow>
            (\<exists>pc. upgradeProduct e (ProductConfig_Publish (productDefaults cfg)) k' lp' = Inr pc)"
  then have "upgradeLegacyConfig e cfg = Inl ?err"
    using upgradeLegacyConfig_first_failure [OF assms p] by blast
  with u show "\<exists>err. upgradeLegacyConfig e cfg = Inl err \<and> unsupportedFeature err
                  \<and> namedProduct err = Some k"
    by blast
next
  fix d out
  assume a: "Product_Dist lp = [d] \<and> upgradeLegacyConfig e cfg = Inr (Some out)"
  from upgradeLegacyConfig_product [OF conjunct2 [OF a] assms] obtain pc where
    m: "map_of (ProjectConfig_Products out) k = Some pc" and
    u: "upgradeProduct e (ProductConfig_Publish (productDefaults cfg)) k lp = Inr pc"
    by blast
  from upgradeProduct_single_dister [OF u conjunct1 [OF a]] obtain dc tn dister where
    "ProductConfig_Dist pc = Some dc"
    "translatedTypeName e (DistInfo_Type (Dist_DistType d)) = Some tn"
    "DistConfig_Disters dc = Some [(tn, dister)]"
    "DisterConfig_Type dister = Some tn"
    by blast
  with m show "\<exists>pc dc tn dister.
               map_of (ProjectConfig_Products out) k = Some pc
               \<and> ProductConfig_Dist pc = Some dc
               \<and> translatedTypeName e (DistInfo_Type (Dist_DistType d)) = Some tn
               \<and> DistConfig_Disters dc = Some [(tn, dister)]
               \<and> DisterConfig_Type dister = Some tn"
    by blast
qed

theorem dist_entry_count_witness:
  "1 < length (Product_Dist twoDistsProduct)
   \<and> (\<exists>err. upgradeLegacyConfig sampleEnv
                (projectOf [(''b'', twoDistsProduct), (''a'', oneDistProduct)]) = Inl err
             \<and> unsupportedFeature err \<and> namedProduct err = Some ''b'')
   \<and> Product_Dist oneDistProduct = [manualDist]
   \<and> (\<exists>out pc dc dister.
         upgradeLegacyConfig sampleEnv (projectOf [(''a'', oneDistProduct)]) = Inr (Some out)
         \<and> map_of (ProjectConfig_Products out) ''a'' = Some pc
         \<and> ProductConfig_Dist pc = Some dc
         \<and> DistConfig_Disters dc = Some [(''manual'', dister)]
         \<and> DisterConfig_Type dister = Some ''manual'')"
proof -
  let ?cfgA = "projectOf [(''b'', twoDistsProduct), (''a'', oneDistProduct)]"
  let ?cfgB = "projectOf [(''a'', oneDistProduct)]"
  have a1: "map_of (Project_Products ?cfgA) ''b'' = Some twoDistsProduct"
    by (simp add: projectOf_def zeroProject_def)
  have a2: "1 < length (Product_Dist twoDistsProduct)"
    by (simp add: sample_defs)
  have a: "\<exists>pc. upgradeProduct sampleEnv (ProductConfig_Publish (productDefaults ?cfgA)) ''a''
                  oneDistProduct = Inr pc"
    by (simp add: sample_defs engine_defs)
  have earlier: "\<forall>k' lp'. k' < ''b'' \<and> map_of (Project_Products ?cfgA) k' = Some lp' \<longrightarrow>
            (\<exists>pc. upgradeProduct sampleEnv (ProductConfig_Publish (productDefaults ?cfgA)) k' lp' = Inr pc)"
  proof (intro allI impI)
    fix k' lp'
    assume "k' < ''b'' \<and> map_of (Project_Products ?cfgA) k' = Some lp'"
    then have "k' = ''a'' \<and> lp' = oneDistProduct"
      by (auto simp: projectOf_def zeroProject_def split: if_splits)
    with a show "\<exists>pc. upgradeProduct sampleEnv (ProductConfig_Publish (productDefaults ?cfgA)) k' lp' = Inr pc"
      by simp
  qed
  from dist_entry_count [OF a1, of sampleEnv None] a2 earlier
  have A: "\<exists>err. upgradeLegacyConfig sampleEnv ?cfgA = Inl err
             \<and> unsupportedFeature err \<and> namedProduct err = Some ''b''"
    by blast
  have b1: "map_of (Project_Products ?cfgB) ''a'' = Some oneDistProduct"
    by (simp add: projectOf_def zeroProject_def)
  have b2: "Product_Dist oneDistProduct = [manualDist]"
    by (simp add: sample_defs)
  have "case upgradeLegacyConfig sampleEnv ?cfgB of Inr (Some out) \<Rightarrow> True | _ \<Rightarrow> False"
    by (simp add: sample_defs engine_defs)
  from migrated_cases [OF this] obtain out where
    b3: "upgradeLegacyConfig sampleEnv ?cfgB = Inr (Some out)" ..
  have tn: "translatedTypeName sampleEnv (DistInfo_Type (Dist_DistType manualDist)) = Some ''manual''"
    by (simp add: translatedTypeName_def sample_defs)
  from dist_entry_count [OF b1, of sampleEnv None] b2 b3
  obtain pc dc tn' dister where
    "map_of (ProjectConfig_Products out) ''a'' = Some pc"
    "ProductConfig_Dist pc = Some dc"
    "translatedTypeName sampleEnv (DistInfo_Type (Dist_DistType manualDist)) = Some tn'"
    "DistConfig_Disters dc = Some [(tn', dister)]"
    "DisterConfig_Type dister = Some tn'"
    by blast
  with tn b3 have B: "\<exists>out pc dc dister.
         upgradeLegacyConfig sampleEnv ?cfgB = Inr (Some out)
         \<and> map_of (ProjectConfig_Products out) ''a'' = Some pc
         \<and> ProductConfig_Dist pc = Some dc
         \<and> DistConfig_Disters dc = Some [(''manual'', dister)]
         \<and> DisterConfig_Type dister = Some ''manual''"
    by auto
  from a2 A b2 B show ?thesis by blast
qed

subsection \<open>The default dist\<close>

lemma upgradeProduct_default_dist:
  assumes "\<not> Build_Skip (Product_Build lp)"
    and "Product_Dist lp = []" and "Build_OSArchs (Product_Build lp) \<noteq> []"
  shows "upgradeProduct e dp k lp =
           upgradeProduct e dp k
             (lp\<lparr>Product_Dist := [defaultOSArchBinDist (Build_OSArchs (Product_Build lp))]\<rparr>)"
proof (cases "Build_Script (Product_Build lp) = []")
  case True
  let ?synth = "defaultOSArchBinDist (Build_OSArchs (Product_Build lp))"
  have sel: "Product_Build (lp\<lparr>Product_Dist := [?synth]\<rparr>) = Product_Build lp"
    "Product_Run (lp\<lparr>Product_Dist := [?synth]\<rparr>) = Product_Run lp"
    "Product_DockerImages (lp\<lparr>Product_Dist := [?synth]\<rparr>) = Product_DockerImages lp"
    "Product_Dist (lp\<lparr>Product_Dist := [?synth]\<rparr>) = [?synth]"
    by simp_all
  obtain bc where b: "upgradeBuild k (Product_Build lp) = Inr (Some bc)"
    and oa: "BuildConfig_OSArchs bc = Some (Build_OSArchs (Product_Build lp))"
    using assms True by (simp add: upgradeBuild_def)
  have d1: "defaultDist (Some bc) (Product_Dist lp) = Inr [?synth]"
    using assms oa
    by (simp add: defaultDist_def defaultOSArchBinDist_def OSArchBinDistType_def)
  have d2: "defaultDist (Some bc) [?synth] = Inr [?synth]"
    by (simp add: defaultDist_def)
  show ?thesis
    unfolding upgradeProduct_def sel b d1 d2 sum.case by (rule refl)
next
  case False
  let ?lp' = "lp\<lparr>Product_Dist := [defaultOSArchBinDist (Build_OSArchs (Product_Build lp))]\<rparr>"
  have "upgradeProduct e dp k lp = Inl (BuildScriptUnsupported k)"
    using assms(1) False by (rule upgradeProduct_build_script)
  moreover have "upgradeProduct e dp k ?lp' = Inl (BuildScriptUnsupported k)"
    using assms(1) False by (intro upgradeProduct_build_script) simp_all
  ultimately show ?thesis by simp
qed

lemma finalScript_defaultOSArchBinDist: "finalScript s (defaultOSArchBinDist archs) = s"
  by (simp add: finalScript_def defaultOSArchBinDist_def zeroDist_def)

lemma upgradeProduct_no_dist:
  assumes "upgradeProduct e dp k lp = Inr pc" and "Product_Dist lp = []"
    and "Build_OSArchs (Product_Build lp) = []"
  shows "ProductConfig_Dist pc = None"
proof -
  from upgradeProduct_Inr [OF assms(1)] obtain build dists dist deps pub where
    b: "upgradeBuild k (Product_Build lp) = Inr build" and
    dd: "defaultDist build (Product_Dist lp) = Inr dists" and
    ud: "upgradeDists e k dists = Inr (dist, deps, pub)" and
    pd: "ProductConfig_Dist pc = dist"
    by blast
  from b assms(3) have "build = None \<or> (\<exists>bc. build = Some bc \<and> BuildConfig_OSArchs bc = None)"
    by (auto simp: upgradeBuild_def split: if_splits)
  with dd assms(2) have "dists = []"
    by (auto simp: defaultDist_def)
  with ud pd show ?thesis by (simp add: upgradeDists_Nil)
qed

text \<open>
  Claim C5. The claim holds where the build is translated (lemma \<open>default_dist_synthesis\<close>
  below). It fails for a product with \<^verbatim>\<open>skip: true\<close>, no dist entry and one build OS/arch
  target: the condition of the default dist reads \<^verbatim>\<open>product.Build.OSArchs\<close> while
  \<^verbatim>\<open>product.Build\<close> is nil, and the engine panics instead of obtaining the default dist.
\<close>

theorem default_dist_skipped_build_panics:
  "Build_Skip (Product_Build osArchsSkipProduct)
   \<and> Product_Dist osArchsSkipProduct = []
   \<and> Build_OSArchs (Product_Build osArchsSkipProduct) = [linuxAmd64]
   \<and> upgradeLegacyConfig e (projectOf [(''a'', osArchsSkipProduct)])
       = Inl (Panic NilPointerDereference)"
  by (simp add: sample_defs engine_defs)

text \<open>
  For a legacy product whose build is not skipped: without a dist entry and with a
  non-empty build OS/arch list, the product is translated exactly as if it declared the
  single dist entry of type \<^verbatim>\<open>os-arch-bin\<close> whose payload carries the legacy marker and the
  build OS/arch list, and a successful migration has the one dister of the os-arch-bin
  plugin, without script, whose configuration is the delegated upgrade of that marshalled
  payload; without a dist entry and without OS/arch targets the migrated product has no
  dist section; and a non-empty dist list is taken as it is.
\<close>

lemma default_dist_synthesis:
  assumes "map_of (Project_Products cfg) k = Some lp"
    and "\<not> Build_Skip (Product_Build lp)"
  shows "(Product_Dist lp = [] \<and> Build_OSArchs (Product_Build lp) \<noteq> [] \<longrightarrow>
            upgradeProduct e dp k lp =
              upgradeProduct e dp k
                (lp\<lparr>Product_Dist := [defaultOSArchBinDist (Build_OSArchs (Product_Build lp))]\<rparr>)
          \<and> (\<forall>out. upgradeLegacyConfig e cfg = Inr (Some out) \<longrightarrow>
                (\<exists>pc dc dister bytes.
                   map_of (ProjectConfig_Products out) k = Some pc
                   \<and> ProductConfig_Dist pc = Some dc
                   \<and> DistConfig_Disters dc = Some [(osarchbin_TypeName e, dister)]
                   \<and> DisterConfig_Type dister = Some (osarchbin_TypeName e)
                   \<and> DisterConfig_Script dister = None
                   \<and> yamlMarshal e (MOSArchBinDist
                         \<lparr>OSArchBinDist_Legacy = True,
                          OSArchBinDist_OSArchs = Build_OSArchs (Product_Build lp)\<rparr>) = Inr bytes
                   \<and> (if bytes = [] then DisterConfig_Config dister = None
                       else \<exists>ms. delegateUpgrade e (disterFactory e) ''dister'' ''os-arch-bin'' k bytes
                                   = Inr ms
                                 \<and> DisterConfig_Config dister = Some ms))))
     \<and> (Product_Dist lp = [] \<and> Build_OSArchs (Product_Build lp) = [] \<longrightarrow>
          (\<forall>out. upgradeLegacyConfig e cfg = Inr (Some out) \<longrightarrow>
             (\<exists>pc. map_of (ProjectConfig_Products out) k = Some pc \<and> ProductConfig_Dist pc = None)))
     \<and> (Product_Dist lp \<noteq> [] \<longrightarrow> defaultDist build (Product_Dist lp) = Inr (Product_Dist lp))"
proof (intro conjI impI allI)
  assume c: "Product_Dist lp = [] \<and> Build_OSArchs (Product_Build lp) \<noteq> []"
  let ?archs = "Build_OSArchs (Product_Build lp)"
  let ?lp' = "lp\<lparr>Product_Dist := [defaultOSArchBinDist ?archs]\<rparr>"
  show eq: "upgradeProduct e dp k lp = upgradeProduct e dp k ?lp'"
    using upgradeProduct_default_dist [OF assms(2)] c by blast
  fix out
  assume s: "upgradeLegacyConfig e cfg = Inr (Some out)"
  from upgradeLegacyConfig_product [OF s assms(1)] obtain pc where
    m: "map_of (ProjectConfig_Products out) k = Some pc" and
    u: "upgradeProduct e (ProductConfig_Publish (productDefaults cfg)) k lp = Inr pc"
    by blast
  have "upgradeProduct e (ProductConfig_Publish (productDefaults cfg)) k ?lp' = Inr pc"
    using upgradeProduct_default_dist [OF assms(2), of e "ProductConfig_Publish (productDefaults cfg)" k]
      c u by simp
  moreover have "Product_Dist ?lp' = [defaultOSArchBinDist ?archs]" by simp
  ultimately obtain cfg0 bytes dc tn dister where
    t: "upgradeDistType e k (defaultOSArchBinDist ?archs) = Inr (cfg0, bytes)" and
    cf: "if bytes = [] then DisterConfig_Config dister = None
         else \<exists>ms. delegateUpgrade e (disterFactory e) ''dister''
                   (DistInfo_Type (Dist_DistType (defaultOSArchBinDist ?archs))) k bytes = Inr ms
                 \<and> DisterConfig_Config dister = Some ms" and
    tn: "translatedTypeName e (DistInfo_Type (Dist_DistType (defaultOSArchBinDist ?archs))) = Some tn" and
    pd: "ProductConfig_Dist pc = Some dc" and
    ds: "DistConfig_Disters dc = Some [(tn, dister)]" and
    ty: "DisterConfig_Type dister = Some tn" and
    sc: "DisterConfig_Script dister
           = finalScript (DisterConfig_Script cfg0) (defaultOSArchBinDist ?archs)"
    using upgradeProduct_single_dister by blast
  have ty': "DistInfo_Type (Dist_DistType (defaultOSArchBinDist ?archs)) = ''os-arch-bin''"
    by (simp add: defaultOSArchBinDist_def)
  have inf: "DistInfo_Info (Dist_DistType (defaultOSArchBinDist ?archs))
      = InfoOSArchBin \<lparr>OSArchBinDist_Legacy = True, OSArchBinDist_OSArchs = ?archs\<rparr>"
    by (simp add: defaultOSArchBinDist_def)
  have tn': "tn = osarchbin_TypeName e"
    using tn ty' by (simp add: translatedTypeName_def)
  have sc': "DisterConfig_Script dister = None"
    using sc upgradeDistType_osarchbin(1) [OF t ty' inf]
    by (simp add: finalScript_defaultOSArchBinDist)
  have mb: "yamlMarshal e (MOSArchBinDist
               \<lparr>OSArchBinDist_Legacy = True, OSArchBinDist_OSArchs = ?archs\<rparr>) = Inr bytes"
    using upgradeDistType_osarchbin(2) [OF t ty' inf] by simp
  from m pd ds ty sc' mb cf
  show "\<exists>pc dc dister bytes.
                   map_of (ProjectConfig_Products out) k = Some pc
                   \<and> ProductConfig_Dist pc = Some dc
                   \<and> DistConfig_Disters dc = Some [(osarchbin_TypeName e, dister)]
                   \<and> DisterConfig_Type dister = Some (osarchbin_TypeName e)
                   \<and> DisterConfig_Script dister = None
                   \<and> yamlMarshal e (MOSArchBinDist
                         \<lparr>OSArchBinDist_Legacy = True,
                          OSArchBinDist_OSArchs = Build_OSArchs (Product_Build lp)\<rparr>) = Inr bytes
                   \<and> (if bytes = [] then DisterConfig_Config dister = None
                       else \<exists>ms. delegateUpgrade e (disterFactory e) ''dister'' ''os-arch-bin'' k bytes
                                   = Inr ms
                                 \<and> DisterConfig_Config dister = Some ms)"
    unfolding tn' ty' by blast
next
  fix out
  assume c: "Product_Dist lp = [] \<and> Build_OSArchs (Product_Build lp) = []"
    and s: "upgradeLegacyConfig e cfg = Inr (Some out)"
  from upgradeLegacyConfig_product [OF s assms(1)] obtain pc where
    m: "map_of (ProjectConfig_Products out) k = Some pc" and
    u: "upgradeProduct e (ProductConfig_Publish (productDefaults cfg)) k lp = Inr pc"
    by blast
  from upgradeProduct_no_dist [OF u] c m
  show "\<exists>pc. map_of (ProjectConfig_Products out) k = Some pc \<and> ProductConfig_Dist pc = None"
    by blast
next
  assume "Product_Dist lp \<noteq> []"
  then show "defaultDist build (Product_Dist lp) = Inr (Product_Dist lp)"
    by (rule defaultDist_nonempty)
qed

lemma default_dist_synthesis_example:
  "map_of (Project_Products (projectOf [(''a'', osArchsProduct)])) ''a'' = Some osArchsProduct
   \<and> \<not> Build_Skip (Product_Build osArchsProduct)
   \<and> Build_Script (Product_Build osArchsProduct) = []
   \<and> Product_Dist osArchsProduct = []
   \<and> Build_OSArchs (Product_Build osArchsProduct) = [linuxAmd64]
   \<and> (\<exists>out pc dc dister.
         upgradeLegacyConfig sampleEnv (projectOf [(''a'', osArchsProduct)]) = Inr (Some out)
         \<and> map_of (ProjectConfig_Products out) ''a'' = Some pc
         \<and> ProductConfig_Dist pc = Some dc
         \<and> DistConfig_Disters dc = Some [(''os-arch-bin'', dister)]
         \<and> DisterConfig_Type dister = Some ''os-arch-bin''
         \<and> DisterConfig_Script dister = None
         \<and> DisterConfig_Config dister
             = Some [(YScalar ''upgraded'', YScalar ''os-archs: linux-amd64 legacy-config: true'')])"
proof -
  let ?cfg = "projectOf [(''a'', osArchsProduct)]"
  have h1: "map_of (Project_Products ?cfg) ''a'' = Some osArchsProduct"
    by (simp add: projectOf_def zeroProject_def)
  have h2: "\<not> Build_Skip (Product_Build osArchsProduct)"
    by (simp add: sample_defs)
  have h3: "Build_Script (Product_Build osArchsProduct) = []"
    by (simp add: sample_defs)
  have h4: "Product_Dist osArchsProduct = []"
    by (simp add: sample_defs)
  have h5: "Build_OSArchs (Product_Build osArchsProduct) = [linuxAmd64]"
    by (simp add: sample_defs)
  have "case upgradeLegacyConfig sampleEnv ?cfg of Inr (Some out) \<Rightarrow> True | _ \<Rightarrow> False"
    by (simp add: sample_defs engine_defs)
  from migrated_cases [OF this] obtain out where
    s: "upgradeLegacyConfig sampleEnv ?cfg = Inr (Some out)" ..
  have mb: "yamlMarshal sampleEnv (MOSArchBinDist
               \<lparr>OSArchBinDist_Legacy = True, OSArchBinDist_OSArchs = [linuxAmd64]\<rparr>)
             = Inr ''os-archs: linux-amd64 legacy-config: true''"
    by (simp add: sample_defs)
  have dl: "delegateUpgrade sampleEnv (disterFactory sampleEnv) ''dister'' ''os-arch-bin'' ''a''
              ''os-archs: linux-amd64 legacy-config: true''
            = Inr [(YScalar ''upgraded'', YScalar ''os-archs: linux-amd64 legacy-config: true'')]"
    by (simp add: delegateUpgrade_def sampleEnv_def)
  have tn: "osarchbin_TypeName sampleEnv = ''os-arch-bin''"
    by (simp add: sampleEnv_def)
  from default_dist_synthesis [OF h1 h2, of sampleEnv None None] h4 h5 s
  obtain pc dc dister bytes where
    r: "map_of (ProjectConfig_Products out) ''a'' = Some pc"
       "ProductConfig_Dist pc = Some dc"
       "DistConfig_Disters dc = Some [(osarchbin_TypeName sampleEnv, dister)]"
       "DisterConfig_Type dister = Some (osarchbin_TypeName sampleEnv)"
       "DisterConfig_Script dister = None" and
    rb: "yamlMarshal sampleEnv (MOSArchBinDist
           \<lparr>OSArchBinDist_Legacy = True, OSArchBinDist_OSArchs = [linuxAmd64]\<rparr>) = Inr bytes" and
    rc: "if bytes = [] then DisterConfig_Config dister = None
         else \<exists>ms. delegateUpgrade sampleEnv (disterFactory sampleEnv) ''dister'' ''os-arch-bin''
                      ''a'' bytes = Inr ms
                   \<and> DisterConfig_Config dister = Some ms"
    by force
  from rb mb have "bytes = ''os-archs: linux-amd64 legacy-config: true''" by simp
  with rc dl have "DisterConfig_Config dister
             = Some [(YScalar ''upgraded'', YScalar ''os-archs: linux-amd64 legacy-config: true'')]"
    by auto
  with r s h1 h2 h3 h4 h5 show ?thesis unfolding tn by blast
qed

subsection \<open>Where the launcher marker can occur\<close>

lemma Contains_sublist: "Contains s sub = sublist sub s"
  by (induction s) (auto simp: sublist_Cons_right)

lemma sublist_separator:
  assumes "c \<notin> set n" and "n \<noteq> []"
  shows "sublist n (a @ c # b) \<longleftrightarrow> sublist n a \<or> sublist n b"
proof
  assume "sublist n (a @ c # b)"
  then consider (l) "sublist n a" | (r) "sublist n (c # b)"
    | (s) xs1 xs2 where "n = xs1 @ xs2" "suffix xs1 a" "prefix xs2 (c # b)"
    by (auto simp: sublist_append)
  then show "sublist n a \<or> sublist n b"
  proof cases
    case l
    then show ?thesis by simp
  next
    case r
    then have "prefix n (c # b) \<or> sublist n b" by (simp add: sublist_Cons_right)
    moreover have "\<not> prefix n (c # b)"
      using assms by (cases n) auto
    ultimately show ?thesis by simp
  next
    case s
    show ?thesis
    proof (cases xs2)
      case Nil
      with s have "suffix n a" by simp
      then show ?thesis by auto
    next
      case (Cons x xs)
      with s have "x = c" by simp
      with Cons s(1) assms(1) show ?thesis by simp
    qed
  qed
next
  assume "sublist n a \<or> sublist n b"
  then show "sublist n (a @ c # b)"
  proof
    assume "sublist n a"
    moreover have "sublist a (a @ c # b)" by simp
    ultimately show ?thesis by (rule sublist_order.order.trans)
  next
    assume "sublist n b"
    moreover have "sublist b (a @ c # b)"
      using sublist_append_leftI [of b "a @ [c]"] by simp
    ultimately show ?thesis by (rule sublist_order.order.trans)
  qed
qed

lemma sublist_skip_prefix:
  assumes "hd n \<notin> set a" and "n \<noteq> []" and "sublist n (a @ u)"
  shows "sublist n u"
proof -
  from assms(3) consider (l) "sublist n a" | (r) "sublist n u"
    | (s) xs1 xs2 where "n = xs1 @ xs2" "suffix xs1 a" "prefix xs2 u"
    by (auto simp: sublist_append)
  then show ?thesis
  proof cases
    case l
    then have "set n \<subseteq> set a" by (auto simp: sublist_def)
    with assms(1,2) show ?thesis by (cases n) auto
  next
    case r
    then show ?thesis .
  next
    case s
    show ?thesis
    proof (cases xs1)
      case Nil
      with s show ?thesis by auto
    next
      case (Cons x xs)
      with s(1) have "hd n = x" by simp
      moreover from s(2) Cons have "x \<in> set a" by (auto simp: suffix_def)
      ultimately show ?thesis using assms(1) by simp
    qed
  qed
qed

lemma marker_chars:
  "launcherStartMarker \<noteq> []"
  "CHR 0x0A \<notin> set launcherStartMarker"
  "CHR ''/'' \<notin> set launcherStartMarker"
  "CHR ''$'' \<notin> set (tl launcherStartMarker)"
  "hd launcherStartMarker = CHR ''#''"
  by (simp_all add: launcherStartMarker_def)

lemma marker_in_launcher: "sublist launcherStartMarker binDistInitShScript"
proof -
  have "prefix launcherStartMarker binDistInitShScript"
    by (simp add: launcherStartMarker_def binDistInitShScript_def)
  then show ?thesis by (rule prefix_imp_sublist)
qed

lemma marker_appendToScript:
  assumes "s = [] \<or> suffix newline s"
  shows "sublist launcherStartMarker (appendToScript s f)
           \<longleftrightarrow> sublist launcherStartMarker s \<or> sublist launcherStartMarker f"
proof -
  note sep = sublist_separator [OF marker_chars(2) marker_chars(1)]
  have tail: "sublist launcherStartMarker (y @ newline) \<longleftrightarrow> sublist launcherStartMarker y" for y
    using sep [of y "[]"] marker_chars(1) by (simp add: newline_def)
  have mid: "sublist launcherStartMarker ((y @ newline) @ z)
               \<longleftrightarrow> sublist launcherStartMarker y \<or> sublist launcherStartMarker z" for y z
    using sep [of y z] by (simp add: newline_def)
  have sh: "\<not> sublist launcherStartMarker ''#!/bin/bash''"
    by code_simp
  have "\<exists>y. (if s = [] then s @ shebang else s) = y @ newline
          \<and> (sublist launcherStartMarker y \<longleftrightarrow> sublist launcherStartMarker s)"
  proof (cases "s = []")
    case True
    have "(if s = [] then s @ shebang else s) = ''#!/bin/bash'' @ newline"
      using True by (simp add: shebang_def)
    moreover have "sublist launcherStartMarker ''#!/bin/bash'' \<longleftrightarrow> sublist launcherStartMarker s"
      using True sh marker_chars(1) by simp
    ultimately show ?thesis by blast
  next
    case False
    with assms obtain y where "s = y @ newline" by (auto simp: suffix_def)
    with False tail [of y] show ?thesis by auto
  qed
  then obtain y where y: "(if s = [] then s @ shebang else s) = y @ newline"
    and ys: "sublist launcherStartMarker y \<longleftrightarrow> sublist launcherStartMarker s"
    by blast
  have "sublist launcherStartMarker (appendToScript s f)
          \<longleftrightarrow> sublist launcherStartMarker ((y @ newline) @ f)"
    using y tail [of "(y @ newline) @ f"]
    by (simp add: appendToScript_def Let_def)
  with mid [of y f] ys show ?thesis by simp
qed

lemma marker_foldl_appendToScript:
  "s = [] \<or> suffix newline s \<Longrightarrow>
   sublist launcherStartMarker (foldl appendToScript s fs)
     \<longleftrightarrow> sublist launcherStartMarker s \<or> (\<exists>f\<in>set fs. sublist launcherStartMarker f)"
proof (induction fs arbitrary: s)
  case Nil
  then show ?case by simp
next
  case (Cons f fs)
  have "appendToScript s f = [] \<or> suffix newline (appendToScript s f)"
    by (simp add: appendToScript_ends_newline)
  from Cons.IH [OF this] marker_appendToScript [OF Cons.prems, of f]
  show ?case by auto
qed

lemma marker_inputDirScriptContent:
  "sublist launcherStartMarker (inputDirScriptContent x) \<longleftrightarrow> sublist launcherStartMarker x"
proof -
  define pre :: string where
    \<open>pre = ''### START: auto-generated back-compat code for "input-dir" behavior ###'' @ newline @
           ''cp -r "$PROJECT_DIR"''\<close>
  define post :: string where
    \<open>post = ''. "$DIST_WORK_DIR"'' @ newline @
      ''find "$DIST_WORK_DIR" -type f -name .gitkeep -exec rm '' @ [CHR 0x27] @ ''{}'' @
        [CHR 0x27] @ '' '' @ [CHR 0x5C] @ '';'' @ newline @
     ''### END: auto-generated back-compat code for "input-dir" behavior ###''\<close>
  have e: "inputDirScriptContent x = pre @ CHR ''/'' # (x @ CHR ''/'' # post)"
    by (simp add: inputDirScriptContent_def pre_def post_def)
  have p1: "\<not> sublist launcherStartMarker pre"
    unfolding pre_def by code_simp
  have p2: "\<not> sublist launcherStartMarker post"
    unfolding post_def by code_simp
  note sep = sublist_separator [OF marker_chars(3) marker_chars(1)]
  show ?thesis
    unfolding e using sep [of pre "x @ CHR ''/'' # post"] sep [of x post] p1 p2 by simp
qed

lemma marker_renameDistDirSpec:
  "sublist launcherStartMarker (renameDistDirSpec s) \<Longrightarrow> sublist launcherStartMarker s"
proof (induction s rule: renameDistDirSpec.induct)
  case 1
  then show ?case by simp
next
  case (2 c cs)
  consider (a) "prefix ''$DIST_DIR'' (c # cs)"
    | (b) "\<not> prefix ''$DIST_DIR'' (c # cs)" "prefix ''${DIST_DIR}'' (c # cs)"
    | (n) "\<not> prefix ''$DIST_DIR'' (c # cs)" "\<not> prefix ''${DIST_DIR}'' (c # cs)"
    by blast
  then show ?case
  proof cases
    case a
    have e: "renameDistDirSpec (c # cs) = ''$DIST_WORK_DIR'' @ renameDistDirSpec (drop 9 (c # cs))"
      by (simp only: renameDistDirSpec.simps(2) a if_True)
    have "hd launcherStartMarker \<notin> set ''$DIST_WORK_DIR''"
      by (simp add: marker_chars(5))
    note skip = sublist_skip_prefix [OF this marker_chars(1)]
    have "sublist launcherStartMarker (''$DIST_WORK_DIR'' @ renameDistDirSpec (drop 9 (c # cs)))"
      using "2.prems" unfolding e .
    then have "sublist launcherStartMarker (renameDistDirSpec (drop 9 (c # cs)))"
      by (rule skip)
    then have "sublist launcherStartMarker (drop 9 (c # cs))" by (rule "2.IH"(1) [OF a])
    moreover have "sublist (drop 9 (c # cs)) (c # cs)" by (rule sublist_drop)
    ultimately show ?thesis by (rule sublist_order.order.trans)
  next
    case b
    have e: "renameDistDirSpec (c # cs) = ''${DIST_WORK_DIR}'' @ renameDistDirSpec (drop 11 (c # cs))"
      by (simp only: renameDistDirSpec.simps(2) b if_True if_False)
    have "hd launcherStartMarker \<notin> set ''${DIST_WORK_DIR}''"
      by (simp add: marker_chars(5))
    note skip = sublist_skip_prefix [OF this marker_chars(1)]
    have "sublist launcherStartMarker (''${DIST_WORK_DIR}'' @ renameDistDirSpec (drop 11 (c # cs)))"
      using "2.prems" unfolding e .
    then have "sublist launcherStartMarker (renameDistDirSpec (drop 11 (c # cs)))"
      by (rule skip)
    then have "sublist launcherStartMarker (drop 11 (c # cs))" by (rule "2.IH"(2) [OF b])
    moreover have "sublist (drop 11 (c # cs)) (c # cs)" by (rule sublist_drop)
    ultimately show ?thesis by (rule sublist_order.order.trans)
  next
    case n
    have e: "renameDistDirSpec (c # cs) = c # renameDistDirSpec cs"
      by (simp only: renameDistDirSpec.simps(2) n if_False)
    from "2.prems" have "prefix launcherStartMarker (c # renameDistDirSpec cs)
        \<or> sublist launcherStartMarker (renameDistDirSpec cs)"
      unfolding e by (simp add: sublist_Cons_right)
    then show ?thesis
    proof
      assume p: "prefix launcherStartMarker (c # renameDistDirSpec cs)"
      have "\<exists>m. launcherStartMarker = CHR ''#'' # m \<and> CHR ''$'' \<notin> set m"
        by (simp add: launcherStartMarker_def)
      then obtain m where m: "launcherStartMarker = CHR ''#'' # m" and md: "CHR ''$'' \<notin> set m"
        by blast
      from p have "prefix (CHR ''#'' # m) (c # renameDistDirSpec cs)" unfolding m .
      then have "c = CHR ''#'' \<and> prefix m (renameDistDirSpec cs)" by auto
      with prefix_spec_nodollar [OF md, of cs] have "prefix (CHR ''#'' # m) (c # cs)"
        by simp
      then have "prefix launcherStartMarker (c # cs)" unfolding m .
      then show ?thesis by (rule prefix_imp_sublist)
    next
      assume "sublist launcherStartMarker (renameDistDirSpec cs)"
      from "2.IH"(3) [OF n this] show ?thesis by (simp add: sublist_Cons_right)
    qed
  qed
qed

lemma marker_translateEnvVars:
  "sublist launcherStartMarker (translateEnvVars s) \<Longrightarrow> sublist launcherStartMarker s"
proof -
  assume a: "sublist launcherStartMarker (translateEnvVars s)"
  define i0 :: string where
    \<open>i0 = ''### START: auto-generated back-compat code for "IS_SNAPSHOT" variable ###'' @ newline @
     ''IS_SNAPSHOT=0'' @ newline @
     ''if [[ $VERSION =~ .+g[-+.]?[a-fA-F0-9]{3,}$ ]]; then IS_SNAPSHOT=1; fi'' @ newline @
     ''### END: auto-generated back-compat code for "IS_SNAPSHOT" variable ###''\<close>
  have i: "isSnapshotScript = i0 @ [CHR 0x0A]"
    by (simp add: isSnapshotScript_def i0_def newline_def)
  have ni: "\<not> sublist launcherStartMarker i0"
    unfolding i0_def by code_simp
  have "sublist launcherStartMarker (renameDistDirSpec s)"
  proof (cases "Contains s ''IS_SNAPSHOT''")
    case True
    with a have "sublist launcherStartMarker (i0 @ CHR 0x0A # renameDistDirSpec s)"
      by (simp add: translateEnvVars_eq_spec i)
    with sublist_separator [OF marker_chars(2) marker_chars(1), of i0 "renameDistDirSpec s"] ni
    show ?thesis by simp
  next
    case False
    with a show ?thesis by (simp add: translateEnvVars_eq_spec)
  qed
  then show ?thesis by (rule marker_renameDistDirSpec)
qed

lemma marker_not_in_script:
  assumes "\<not> Contains (Dist_InputDir d) launcherStartMarker"
    and "\<not> Contains (Dist_Script d) launcherStartMarker"
    and "scriptOfFragments (distScriptFragments False d) = Some script"
  shows "\<not> Contains script launcherStartMarker \<and> \<not> Contains script binDistInitShScript"
proof -
  from assms(3) have s: "script = foldl appendToScript [] (distScriptFragments False d)"
    by (simp add: scriptOfFragments_def split: if_splits)
  have "\<not> sublist launcherStartMarker f" if "f \<in> set (distScriptFragments False d)" for f
  proof -
    from that have "f = inputDirScriptContent (Dist_InputDir d) \<or> f = translateEnvVars (Dist_Script d)"
      by (auto simp: distScriptFragments_def split: if_splits)
    then show ?thesis
      using assms(1,2) marker_inputDirScriptContent [of "Dist_InputDir d"]
        marker_translateEnvVars [of "Dist_Script d"]
      by (auto simp: Contains_sublist)
  qed
  with marker_foldl_appendToScript [of "[]" "distScriptFragments False d"] marker_chars(1)
  have n: "\<not> sublist launcherStartMarker script"
    unfolding s by auto
  have "\<not> sublist binDistInitShScript script"
  proof
    assume "sublist binDistInitShScript script"
    with marker_in_launcher have "sublist launcherStartMarker script"
      by (rule sublist_order.order.trans)
    with n show False ..
  qed
  with n show ?thesis by (simp add: Contains_sublist)
qed

subsection \<open>The launcher script of a bin dist\<close>

lemma finalScript_fragments:
  "finalScript (scriptOfFragments (if l then [binDistInitShScript] else [])) d
     = scriptOfFragments (distScriptFragments l d)"
proof -
  have "finalScript (scriptOfFragments fs) d
     = scriptOfFragments (fs @
         (if Dist_InputDir d \<noteq> [] then [inputDirScriptContent (Dist_InputDir d)] else []) @
         (if Dist_Script d \<noteq> [] then [translateEnvVars (Dist_Script d)] else []))" for fs
    by (simp add: finalScript_def appendToScriptPtr_fragments)
  then show ?thesis by (simp add: distScriptFragments_def)
qed

lemma foldl_appendToScript_first:
  "prefix (shebang @ f) (foldl appendToScript [] (f # fs))"
proof -
  have "prefix (shebang @ f) (appendToScript [] f)"
    by (simp add: appendToScript_def Let_def)
  from foldl_appendToScript_prefix [OF this appendToScript_nonempty] show ?thesis by simp
qed

lemma binDistInitShScript_text:
  \<open>binDistInitShScript =
       ''### START: auto-generated back-compat code for "omit-init-sh: false" behavior for bin dist ###'' @ [CHR 0x0A] @
       ''read -d '' @ [CHR 0x27, CHR 0x27] @ '' GODELUPGRADED_scriptContent <<"EOF"'' @ [CHR 0x0A] @
       ''#!/bin/bash'' @ [CHR 0x0A] @
       ''set -euo pipefail'' @ [CHR 0x0A] @
       ''BIN_DIR="$(cd "$(dirname "$0")" && pwd)"'' @ [CHR 0x0A] @
       ''# determine OS'' @ [CHR 0x0A] @
       ''OS=""'' @ [CHR 0x0A] @
       ''case "$(uname)" in'' @ [CHR 0x0A] @
       ''  Darwin*)'' @ [CHR 0x0A] @
       ''    OS=darwin'' @ [CHR 0x0A] @
       ''    ;;'' @ [CHR 0x0A] @
       ''  Linux*)'' @ [CHR 0x0A] @
       ''    OS=linux'' @ [CHR 0x0A] @
       ''    ;;'' @ [CHR 0x0A] @
       ''  *)'' @ [CHR 0x0A] @
       ''    echo "Unsupported operating system: $(uname)"'' @ [CHR 0x0A] @
       ''    exit 1'' @ [CHR 0x0A] @
       ''    ;;'' @ [CHR 0x0A] @
       ''esac'' @ [CHR 0x0A] @
       ''# determine executable location based on OS'' @ [CHR 0x0A] @
       ''CMD=$BIN_DIR/$OS-amd64/{{.ProductName}}'' @ [CHR 0x0A] @
       ''# verify that executable exists'' @ [CHR 0x0A] @
       ''if [ ! -e "$CMD" ]; then'' @ [CHR 0x0A] @
       ''    echo "Executable $CMD does not exist"'' @ [CHR 0x0A] @
       ''    exit 1'' @ [CHR 0x0A] @
       ''fi'' @ [CHR 0x0A] @
       ''# invoke appropriate executable'' @ [CHR 0x0A] @
       ''$CMD "$@"'' @ [CHR 0x0A] @
       ''EOF'' @ [CHR 0x0A] @
       ''GODELUPGRADED_templated=${GODELUPGRADED_scriptContent//'' @ [CHR 0x5C] @ ''{'' @ [CHR 0x5C] @ ''{.ProductName'' @ [CHR 0x5C] @ ''}'' @ [CHR 0x5C] @ ''}/$PRODUCT}'' @ [CHR 0x0A] @
       ''echo "$GODELUPGRADED_templated" > "$DIST_WORK_DIR"/bin/"$PRODUCT".sh'' @ [CHR 0x0A] @
       ''chmod 755 "$DIST_WORK_DIR"/bin/"$PRODUCT".sh'' @ [CHR 0x0A] @
       ''### END: auto-generated back-compat code for "omit-init-sh: false" behavior for bin dist ###''\<close>
  by (simp add: binDistInitShScript_def newline_def)

lemma launcher_delimited:
  "prefix (launcherStartMarker @ newline) binDistInitShScript
   \<and> suffix (newline @ launcherEndMarker) binDistInitShScript"
  by code_simp

text \<open>
  A bin dist without \<^verbatim>\<open>omit-init-sh\<close> whose legacy script is itself the text of the launcher
  fragment: the engine appends no launcher, and the migrated script still contains the
  fragment, because the legacy script is copied into it.
\<close>

theorem bin_dist_launcher_counterexample:
  "Product_Dist ownLauncherProduct = [(binDistWith None)\<lparr>Dist_Script := binDistInitShScript\<rparr>]
   \<and> upgradeLegacyConfig sampleEnv (projectOf [(''a'', ownLauncherProduct)]) =
       Inr (Some \<lparr>ProjectConfig_Products =
         [(''a'', zeroProductConfig
             \<lparr>ProductConfig_Build := Some zeroBuildConfig,
              ProductConfig_Dist :=
                Some \<lparr>DistConfig_OutputDir = None,
                      DistConfig_Disters =
                        Some [(''bin'', zeroDisterConfig
                                 \<lparr>DisterConfig_Type := Some ''bin'',
                                  DisterConfig_Script :=
                                    Some (shebang @ binDistInitShScript @ newline)\<rparr>)]\<rparr>\<rparr>)],
        ProjectConfig_ProductDefaults = zeroProductConfig,
        ProjectConfig_ScriptIncludes = [],
        ProjectConfig_Exclude = \<lparr>NamesPathsCfg_Names = [], NamesPathsCfg_Paths = []\<rparr>\<rparr>)
   \<and> Contains (shebang @ binDistInitShScript @ newline) binDistInitShScript"
proof -
  have a: "Product_Dist ownLauncherProduct
             = [(binDistWith None)\<lparr>Dist_Script := binDistInitShScript\<rparr>]"
    by (simp add: ownLauncherProduct_def zeroProduct_def)
  have t: "translateEnvVars binDistInitShScript = binDistInitShScript"
    by code_simp
  have n: "\<not> suffix newline (shebang @ binDistInitShScript)"
    by code_simp
  have ne: "binDistInitShScript \<noteq> []"
    by (simp add: binDistInitShScript_def)
  have b: "upgradeLegacyConfig sampleEnv (projectOf [(''a'', ownLauncherProduct)]) =
       Inr (Some \<lparr>ProjectConfig_Products =
         [(''a'', zeroProductConfig
             \<lparr>ProductConfig_Build := Some zeroBuildConfig,
              ProductConfig_Dist :=
                Some \<lparr>DistConfig_OutputDir = None,
                      DistConfig_Disters =
                        Some [(''bin'', zeroDisterConfig
                                 \<lparr>DisterConfig_Type := Some ''bin'',
                                  DisterConfig_Script :=
                                    Some (shebang @ binDistInitShScript @ newline)\<rparr>)]\<rparr>\<rparr>)],
        ProjectConfig_ProductDefaults = zeroProductConfig,
        ProjectConfig_ScriptIncludes = [],
        ProjectConfig_Exclude = \<lparr>NamesPathsCfg_Names = [], NamesPathsCfg_Paths = []\<rparr>\<rparr>)"
    using ne n
    by (simp add: sampleEnv_def sampleMarshal_def binDistWith_def projectOf_def
          ownLauncherProduct_def zeroAlmanac_def zeroPublish_def zeroBuild_def zeroDist_def
          zeroProduct_def zeroProject_def
          upgradeLegacyConfig_def sortedProductsKeys_def productDefaults_def lookupProduct_def
          upgradeProduct_def upgradeBuild_def upgradeRun_def defaultDist_def upgradeDists_def
          upgradeDistType_def upgradePublish_def upgradeDocker_def appendToScriptPtr_def
          zeroBuildConfig_def zeroDisterConfig_def zeroPublishConfig_def zeroProductConfig_def
          SLSDistType_def BinDistType_def RPMDistType_def OSArchBinDistType_def
          ManualDistType_def appendToScript_def HasSuffix_def Let_def t
          translateEnvVars_eq_spec [of "[]", simplified])
  have c: "Contains (shebang @ binDistInitShScript @ newline) binDistInitShScript"
    by (simp add: Contains_sublist)
  from a b c show ?thesis by (intro conjI)
qed

text \<open>
  Claim C8, amended. For a migrated product with one dist entry of type \<^verbatim>\<open>bin\<close>, the script
  of its dister is assembled from these fragments in order: the launcher fragment exactly
  when \<^verbatim>\<open>omit-init-sh\<close> is present and false, the copy of the input directory when one is
  given, the rewritten legacy script when one is given. With \<^verbatim>\<open>omit-init-sh\<close> present and
  false the script begins with \<^verbatim>\<open>#!/bin/bash\<close> and the launcher fragment, which it
  therefore contains; otherwise the engine appends no launcher fragment, and the script
  contains neither the fragment nor its start marker, provided that the legacy input
  directory and the legacy script do not themselves contain the start marker. The launcher
  fragment is the text below, which begins with the line of the start marker and ends
  with the line of the end marker.
\<close>

theorem bin_dist_launcher:
  assumes "upgradeLegacyConfig e cfg = Inr (Some out)"
    and "map_of (Project_Products cfg) k = Some lp"
    and "Product_Dist lp = [d]"
    and "DistInfo_Type (Dist_DistType d) = ''bin''"
    and "DistInfo_Info (Dist_DistType d) = InfoBin b"
  shows \<open>(\<exists>pc dc dister.
     map_of (ProjectConfig_Products out) k = Some pc
     \<and> ProductConfig_Dist pc = Some dc
     \<and> DistConfig_Disters dc = Some [(bin_TypeName e, dister)]
     \<and> DisterConfig_Script dister
         = scriptOfFragments (distScriptFragments (BinDist_OmitInitSh b = Some False) d)
     \<and> (BinDist_OmitInitSh b = Some False \<longrightarrow>
          (\<exists>script. DisterConfig_Script dister = Some script
                     \<and> prefix (shebang @ binDistInitShScript) script
                     \<and> Contains script binDistInitShScript))
     \<and> (BinDist_OmitInitSh b \<noteq> Some False \<longrightarrow>
          DisterConfig_Script dister
            = scriptOfFragments
                ((if Dist_InputDir d \<noteq> [] then [inputDirScriptContent (Dist_InputDir d)] else []) @
                 (if Dist_Script d \<noteq> [] then [translateEnvVars (Dist_Script d)] else [])))
     \<and> (BinDist_OmitInitSh b \<noteq> Some False
          \<and> \<not> Contains (Dist_InputDir d) launcherStartMarker
          \<and> \<not> Contains (Dist_Script d) launcherStartMarker \<longrightarrow>
          (\<forall>script. DisterConfig_Script dister = Some script \<longrightarrow>
             \<not> Contains script launcherStartMarker \<and> \<not> Contains script binDistInitShScript)))
   \<and> binDistInitShScript =
       ''### START: auto-generated back-compat code for "omit-init-sh: false" behavior for bin dist ###'' @ [CHR 0x0A] @
       ''read -d '' @ [CHR 0x27, CHR 0x27] @ '' GODELUPGRADED_scriptContent <<"EOF"'' @ [CHR 0x0A] @
       ''#!/bin/bash'' @ [CHR 0x0A] @
       ''set -euo pipefail'' @ [CHR 0x0A] @
       ''BIN_DIR="$(cd "$(dirname "$0")" && pwd)"'' @ [CHR 0x0A] @
       ''# determine OS'' @ [CHR 0x0A] @
       ''OS=""'' @ [CHR 0x0A] @
       ''case "$(uname)" in'' @ [CHR 0x0A] @
       ''  Darwin*)'' @ [CHR 0x0A] @
       ''    OS=darwin'' @ [CHR 0x0A] @
       ''    ;;'' @ [CHR 0x0A] @
       ''  Linux*)'' @ [CHR 0x0A] @
       ''    OS=linux'' @ [CHR 0x0A] @
       ''    ;;'' @ [CHR 0x0A] @
       ''  *)'' @ [CHR 0x0A] @
       ''    echo "Unsupported operating system: $(uname)"'' @ [CHR 0x0A] @
       ''    exit 1'' @ [CHR 0x0A] @
       ''    ;;'' @ [CHR 0x0A] @
       ''esac'' @ [CHR 0x0A] @
       ''# determine executable location based on OS'' @ [CHR 0x0A] @
       ''CMD=$BIN_DIR/$OS-amd64/{{.ProductName}}'' @ [CHR 0x0A] @
       ''# verify that executable exists'' @ [CHR 0x0A] @
       ''if [ ! -e "$CMD" ]; then'' @ [CHR 0x0A] @
       ''    echo "Executable $CMD does not exist"'' @ [CHR 0x0A] @
       ''    exit 1'' @ [CHR 0x0A] @
       ''fi'' @ [CHR 0x0A] @
       ''# invoke appropriate executable'' @ [CHR 0x0A] @
       ''$CMD "$@"'' @ [CHR 0x0A] @
       ''EOF'' @ [CHR 0x0A] @
       ''GODELUPGRADED_templated=${GODELUPGRADED_scriptContent//'' @ [CHR 0x5C] @ ''{'' @ [CHR 0x5C] @ ''{.ProductName'' @ [CHR 0x5C] @ ''}'' @ [CHR 0x5C] @ ''}/$PRODUCT}'' @ [CHR 0x0A] @
       ''echo "$GODELUPGRADED_templated" > "$DIST_WORK_DIR"/bin/"$PRODUCT".sh'' @ [CHR 0x0A] @
       ''chmod 755 "$DIST_WORK_DIR"/bin/"$PRODUCT".sh'' @ [CHR 0x0A] @
       ''### END: auto-generated back-compat code for "omit-init-sh: false" behavior for bin dist ###''
   \<and> launcherStartMarker =
       ''### START: auto-generated back-compat code for "omit-init-sh: false" behavior for bin dist ###''
   \<and> launcherEndMarker =
       ''### END: auto-generated back-compat code for "omit-init-sh: false" behavior for bin dist ###''
   \<and> prefix (launcherStartMarker @ newline) binDistInitShScript
   \<and> suffix (newline @ launcherEndMarker) binDistInitShScript\<close>
proof -
  have main: "\<exists>pc dc dister.
     map_of (ProjectConfig_Products out) k = Some pc
     \<and> ProductConfig_Dist pc = Some dc
     \<and> DistConfig_Disters dc = Some [(bin_TypeName e, dister)]
     \<and> DisterConfig_Script dister
         = scriptOfFragments (distScriptFragments (BinDist_OmitInitSh b = Some False) d)
     \<and> (BinDist_OmitInitSh b = Some False \<longrightarrow>
          (\<exists>script. DisterConfig_Script dister = Some script
                     \<and> prefix (shebang @ binDistInitShScript) script
                     \<and> Contains script binDistInitShScript))
     \<and> (BinDist_OmitInitSh b \<noteq> Some False \<longrightarrow>
          DisterConfig_Script dister
            = scriptOfFragments
                ((if Dist_InputDir d \<noteq> [] then [inputDirScriptContent (Dist_InputDir d)] else []) @
                 (if Dist_Script d \<noteq> [] then [translateEnvVars (Dist_Script d)] else [])))
     \<and> (BinDist_OmitInitSh b \<noteq> Some False
          \<and> \<not> Contains (Dist_InputDir d) launcherStartMarker
          \<and> \<not> Contains (Dist_Script d) launcherStartMarker \<longrightarrow>
          (\<forall>script. DisterConfig_Script dister = Some script \<longrightarrow>
             \<not> Contains script launcherStartMarker \<and> \<not> Contains script binDistInitShScript))"
  proof -
    from upgradeLegacyConfig_product [OF assms(1,2)] obtain pc where
      m: "map_of (ProjectConfig_Products out) k = Some pc" and
      u: "upgradeProduct e (ProductConfig_Publish (productDefaults cfg)) k lp = Inr pc"
      by blast
    from upgradeProduct_single_dister [OF u assms(3)] obtain cfg0 bytes dc tn dister where
      t: "upgradeDistType e k d = Inr (cfg0, bytes)" and
      tn: "translatedTypeName e (DistInfo_Type (Dist_DistType d)) = Some tn" and
      pd: "ProductConfig_Dist pc = Some dc" and
      ds: "DistConfig_Disters dc = Some [(tn, dister)]" and
      sc: "DisterConfig_Script dister = finalScript (DisterConfig_Script cfg0) d"
      by blast
    have tn': "tn = bin_TypeName e"
      using tn assms(4) by (simp add: translatedTypeName_def)
    have s: "DisterConfig_Script dister
           = scriptOfFragments (distScriptFragments (BinDist_OmitInitSh b = Some False) d)"
      using sc upgradeDistType_script_bin(1) [OF t assms(4,5)]
      by (simp only: finalScript_fragments)
    have l: "\<exists>script. DisterConfig_Script dister = Some script
                       \<and> prefix (shebang @ binDistInitShScript) script
                       \<and> Contains script binDistInitShScript"
      if omit: "BinDist_OmitInitSh b = Some False"
    proof -
      have "distScriptFragments (BinDist_OmitInitSh b = Some False) d
              = binDistInitShScript # distScriptFragments False d"
        using omit by (simp add: distScriptFragments_def)
      then obtain fs where "distScriptFragments (BinDist_OmitInitSh b = Some False) d
                         = binDistInitShScript # fs" ..
      with s have "DisterConfig_Script dister
                     = Some (foldl appendToScript [] (binDistInitShScript # fs))"
        by (simp add: scriptOfFragments_def)
      moreover have "Contains script binDistInitShScript"
        if "prefix (shebang @ binDistInitShScript) script" for script
      proof -
        from that obtain r where "script = shebang @ binDistInitShScript @ r"
          by (auto simp: prefix_def)
        then show ?thesis by (simp add: Contains_sublist)
      qed
      ultimately show ?thesis
        using foldl_appendToScript_first [of binDistInitShScript fs] by simp
    qed
    have n: "DisterConfig_Script dister
              = scriptOfFragments
                  ((if Dist_InputDir d \<noteq> [] then [inputDirScriptContent (Dist_InputDir d)] else []) @
                   (if Dist_Script d \<noteq> [] then [translateEnvVars (Dist_Script d)] else []))"
      if "BinDist_OmitInitSh b \<noteq> Some False"
      using s that by (simp add: distScriptFragments_def)
    have a: "\<forall>script. DisterConfig_Script dister = Some script \<longrightarrow>
               \<not> Contains script launcherStartMarker \<and> \<not> Contains script binDistInitShScript"
      if "BinDist_OmitInitSh b \<noteq> Some False \<and> \<not> Contains (Dist_InputDir d) launcherStartMarker
            \<and> \<not> Contains (Dist_Script d) launcherStartMarker"
    proof (intro allI impI)
      fix script
      assume "DisterConfig_Script dister = Some script"
      with s that have "scriptOfFragments (distScriptFragments False d) = Some script" by simp
      with marker_not_in_script [of d script] that
      show "\<not> Contains script launcherStartMarker \<and> \<not> Contains script binDistInitShScript"
        by blast
    qed
    from m pd ds s l n a show ?thesis unfolding tn' by blast
  qed
  show ?thesis
    by (rule conjI [OF main conjI [OF binDistInitShScript_text
          conjI [OF launcherStartMarker_def conjI [OF launcherEndMarker_def launcher_delimited]]]])
qed

theorem bin_dist_launcher_witness:
  "(\<exists>out pc dc dister script.
      upgradeLegacyConfig sampleEnv (projectOf [(''a'', launcherProduct)]) = Inr (Some out)
      \<and> map_of (ProjectConfig_Products out) ''a'' = Some pc
      \<and> ProductConfig_Dist pc = Some dc
      \<and> DistConfig_Disters dc = Some [(''bin'', dister)]
      \<and> DisterConfig_Script dister = Some script
      \<and> script = shebang @ binDistInitShScript @ newline @ ''echo $DIST_WORK_DIR'' @ newline
      \<and> Contains script binDistInitShScript)
   \<and> (\<exists>out pc dc dister script.
      upgradeLegacyConfig sampleEnv (projectOf [(''a'', noLauncherProduct)]) = Inr (Some out)
      \<and> map_of (ProjectConfig_Products out) ''a'' = Some pc
      \<and> ProductConfig_Dist pc = Some dc
      \<and> DistConfig_Disters dc = Some [(''bin'', dister)]
      \<and> DisterConfig_Script dister = Some script
      \<and> script = shebang @ ''echo $DIST_WORK_DIR'' @ newline
      \<and> \<not> Contains script binDistInitShScript)"
proof -
  let ?dl = "(binDistWith (Some False))\<lparr>Dist_Script := ''echo $DIST_DIR''\<rparr>"
  let ?dn = "(binDistWith (Some True))\<lparr>Dist_Script := ''echo $DIST_DIR''\<rparr>"
  let ?bl = "\<lparr>BinDist_Legacy = False, BinDist_OmitInitSh = Some False,
              BinDist_InitShTemplateFile = []\<rparr>"
  let ?bn = "\<lparr>BinDist_Legacy = False, BinDist_OmitInitSh = Some True,
              BinDist_InitShTemplateFile = []\<rparr>"
  have tn: "bin_TypeName sampleEnv = ''bin''" by (simp add: sampleEnv_def)
  have "case upgradeLegacyConfig sampleEnv (projectOf [(''a'', launcherProduct)]) of
          Inr (Some out) \<Rightarrow> True | _ \<Rightarrow> False"
    by (simp add: sample_defs engine_defs)
  from migrated_cases [OF this] obtain outl where
    l1: "upgradeLegacyConfig sampleEnv (projectOf [(''a'', launcherProduct)]) = Inr (Some outl)" ..
  have l2: "map_of (Project_Products (projectOf [(''a'', launcherProduct)])) ''a'' = Some launcherProduct"
    by (simp add: projectOf_def zeroProject_def)
  have l3: "Product_Dist launcherProduct = [?dl]"
    by (simp add: launcherProduct_def zeroProduct_def)
  have l4: "DistInfo_Type (Dist_DistType ?dl) = ''bin''"
    by (simp add: binDistWith_def zeroDist_def)
  have l5: "DistInfo_Info (Dist_DistType ?dl) = InfoBin ?bl"
    by (simp add: binDistWith_def zeroDist_def)
  have l6: "scriptOfFragments (distScriptFragments (BinDist_OmitInitSh ?bl = Some False) ?dl)
              = Some (shebang @ binDistInitShScript @ newline @ ''echo $DIST_WORK_DIR'' @ newline)"
    by code_simp
  have l7: "BinDist_OmitInitSh ?bl = Some False" by simp
  from conjunct1 [OF bin_dist_launcher [OF l1 l2 l3 l4 l5]] obtain pcl dcl disterl where
    "map_of (ProjectConfig_Products outl) ''a'' = Some pcl"
    "ProductConfig_Dist pcl = Some dcl"
    "DistConfig_Disters dcl = Some [(bin_TypeName sampleEnv, disterl)]"
    "DisterConfig_Script disterl
       = scriptOfFragments (distScriptFragments (BinDist_OmitInitSh ?bl = Some False) ?dl)"
    "BinDist_OmitInitSh ?bl = Some False \<longrightarrow>
       (\<exists>script. DisterConfig_Script disterl = Some script
                  \<and> prefix (shebang @ binDistInitShScript) script
                  \<and> Contains script binDistInitShScript)"
    by blast
  with l6 l7 l1
  have L: "\<exists>out pc dc dister script.
      upgradeLegacyConfig sampleEnv (projectOf [(''a'', launcherProduct)]) = Inr (Some out)
      \<and> map_of (ProjectConfig_Products out) ''a'' = Some pc
      \<and> ProductConfig_Dist pc = Some dc
      \<and> DistConfig_Disters dc = Some [(''bin'', dister)]
      \<and> DisterConfig_Script dister = Some script
      \<and> script = shebang @ binDistInitShScript @ newline @ ''echo $DIST_WORK_DIR'' @ newline
      \<and> Contains script binDistInitShScript"
    unfolding tn by force
  have "case upgradeLegacyConfig sampleEnv (projectOf [(''a'', noLauncherProduct)]) of
          Inr (Some out) \<Rightarrow> True | _ \<Rightarrow> False"
    by (simp add: sample_defs engine_defs)
  from migrated_cases [OF this] obtain outn where
    n1: "upgradeLegacyConfig sampleEnv (projectOf [(''a'', noLauncherProduct)]) = Inr (Some outn)" ..
  have n2: "map_of (Project_Products (projectOf [(''a'', noLauncherProduct)])) ''a''
              = Some noLauncherProduct"
    by (simp add: projectOf_def zeroProject_def)
  have n3: "Product_Dist noLauncherProduct = [?dn]"
    by (simp add: noLauncherProduct_def zeroProduct_def)
  have n4: "DistInfo_Type (Dist_DistType ?dn) = ''bin''"
    by (simp add: binDistWith_def zeroDist_def)
  have n5: "DistInfo_Info (Dist_DistType ?dn) = InfoBin ?bn"
    by (simp add: binDistWith_def zeroDist_def)
  have n6: "scriptOfFragments (distScriptFragments (BinDist_OmitInitSh ?bn = Some False) ?dn)
              = Some (shebang @ ''echo $DIST_WORK_DIR'' @ newline)"
    by code_simp
  have n7: "BinDist_OmitInitSh ?bn \<noteq> Some False
          \<and> \<not> Contains (Dist_InputDir ?dn) launcherStartMarker
          \<and> \<not> Contains (Dist_Script ?dn) launcherStartMarker"
    by code_simp
  from conjunct1 [OF bin_dist_launcher [OF n1 n2 n3 n4 n5]] obtain pcn dcn distern where
    "map_of (ProjectConfig_Products outn) ''a'' = Some pcn"
    "ProductConfig_Dist pcn = Some dcn"
    "DistConfig_Disters dcn = Some [(bin_TypeName sampleEnv, distern)]"
    "DisterConfig_Script distern
       = scriptOfFragments (distScriptFragments (BinDist_OmitInitSh ?bn = Some False) ?dn)"
    "BinDist_OmitInitSh ?bn \<noteq> Some False
          \<and> \<not> Contains (Dist_InputDir ?dn) launcherStartMarker
          \<and> \<not> Contains (Dist_Script ?dn) launcherStartMarker \<longrightarrow>
          (\<forall>script. DisterConfig_Script distern = Some script \<longrightarrow>
             \<not> Contains script launcherStartMarker \<and> \<not> Contains script binDistInitShScript)"
    by blast
  with n6 n7 n1
  have N: "\<exists>out pc dc dister script.
      upgradeLegacyConfig sampleEnv (projectOf [(''a'', noLauncherProduct)]) = Inr (Some out)
      \<and> map_of (ProjectConfig_Products out) ''a'' = Some pc
      \<and> ProductConfig_Dist pc = Some dc
      \<and> DistConfig_Disters dc = Some [(''bin'', dister)]
      \<and> DisterConfig_Script dister = Some script
      \<and> script = shebang @ ''echo $DIST_WORK_DIR'' @ newline
      \<and> \<not> Contains script binDistInitShScript"
    unfolding tn by force
  from L N show ?thesis by blast
qed

subsection \<open>Skipped builds\<close>

lemma upgradeProduct_skip_no_dist:
  "Build_Skip (Product_Build lp) \<Longrightarrow> Product_Dist lp = [] \<Longrightarrow>
   upgradeProduct e dp k lp = Inl (Panic NilPointerDereference)"
  by (simp add: upgradeProduct_def upgradeBuild_def defaultDist_def)

lemma upgradeProduct_skip_no_build:
  "Build_Skip (Product_Build lp) \<Longrightarrow> upgradeProduct e dp k lp = Inr pc \<Longrightarrow>
   ProductConfig_Build pc = None"
  by (auto simp: upgradeProduct_def upgradeBuild_def split: sum.splits prod.splits)

text \<open>
  Claim C10. The claim holds when the product has a dist entry (lemma
  \<open>upgradeProduct_skip_no_build\<close> and the product \<open>skipScriptDistProduct\<close> above). Without a
  dist entry it fails: for the product with only \<^verbatim>\<open>skip: true\<close> and a build script, the
  condition of the default dist reads \<^verbatim>\<open>product.Build.OSArchs\<close> while \<^verbatim>\<open>product.Build\<close>
  is nil, and the engine panics instead of migrating the product.
\<close>

theorem skip_without_dist_panics:
  "Build_Skip (Product_Build skipScriptProduct)
   \<and> Build_Script (Product_Build skipScriptProduct) = ''make''
   \<and> Product_Dist skipScriptProduct = []
   \<and> upgradeLegacyConfig e (projectOf [(''a'', skipScriptProduct)])
       = Inl (Panic NilPointerDereference)"
  by (simp add: sample_defs engine_defs)

end
